theory Spec2Isabelle
  imports Complex_Main
begin

section \<open>Text cells, rows and the Python runtime\<close>

text \<open>
  The scoring engine (\<^verbatim>\<open>fred_postgres.py\<close>) and the ISS estimator
  (\<^verbatim>\<open>iss_estimator.py\<close>) read every input through dictionaries of loosely typed
  cells. The code looks at a cell only through \<^verbatim>\<open>is None\<close>, \<^verbatim>\<open>== ''\<close> and
  \<^verbatim>\<open>str(value)\<close>, so a cell is modelled by \<open>None\<close> (Python's \<^verbatim>\<open>None\<close>) or by the
  text that \<^verbatim>\<open>str\<close> gives for it. A row is a dictionary from column names to cells; a
  missing key is \<open>None\<close> at the level of the map. Text is ASCII.
\<close>

type_synonym cell = "string option"
type_synonym row = "string \<rightharpoonup> cell"

text \<open>\<^verbatim>\<open>row.get(col, default)\<close>\<close>

definition dict_get :: "row \<Rightarrow> string \<Rightarrow> cell \<Rightarrow> cell" where
  "dict_get r k d = (case r k of None \<Rightarrow> d | Some v \<Rightarrow> v)"

datatype error = OverflowError | ZeroDivisionError

text \<open>Sequencing of computations that may raise.\<close>

definition ebind :: "error + 'a \<Rightarrow> ('a \<Rightarrow> error + 'b) \<Rightarrow> error + 'b" where
  "ebind m f = (case m of Inl e \<Rightarrow> Inl e | Inr x \<Rightarrow> f x)"

text \<open>
  A Python float as the code can observe it: a finite value, an infinity or a nan.
\<close>

datatype pyfloat = Finite rat | PosInf | NegInf | NaN

text \<open>
  The parts of the Python runtime and standard library that the program calls and that
  are not code of the repository. Every theorem below holds for every runtime.
  \<^item> \<open>float_of s\<close> is \<^verbatim>\<open>float(s)\<close>; \<open>None\<close> where it raises \<^verbatim>\<open>ValueError\<close>.
  \<^item> \<open>int_of s\<close> is \<^verbatim>\<open>int(s)\<close>; \<open>None\<close> where it raises \<^verbatim>\<open>ValueError\<close>.
  \<^item> \<open>days_since y m d\<close> is \<^verbatim>\<open>(datetime.now() - datetime(y, m, d)).days\<close>; \<open>None\<close> where
    the constructor raises \<^verbatim>\<open>ValueError\<close>.
  \<^item> \<open>str_hash s\<close> is the built-in \<^verbatim>\<open>hash(s)\<close> of this process.
  \<^item> \<open>randint seed a b\<close> is the first \<^verbatim>\<open>randint(a, b)\<close> drawn from
    \<^verbatim>\<open>random.Random(seed)\<close>; the estimator draws at most once per call.
\<close>

record runtime =
  float_of :: "string \<Rightarrow> pyfloat option"
  int_of :: "string \<Rightarrow> int option"
  days_since :: "int \<Rightarrow> int \<Rightarrow> int \<Rightarrow> int option"
  str_hash :: "string \<Rightarrow> int"
  randint :: "int \<Rightarrow> int \<Rightarrow> int \<Rightarrow> int"

subsection \<open>String methods\<close>

definition is_space :: "char \<Rightarrow> bool" where
  "is_space c = (let n = (of_char c :: nat) in (9 \<le> n \<and> n \<le> 13) \<or> (28 \<le> n \<and> n \<le> 32))"

text \<open>\<^verbatim>\<open>s.strip()\<close>\<close>

definition strip :: "string \<Rightarrow> string" where
  "strip s = rev (dropWhile is_space (rev (dropWhile is_space s)))"

text \<open>\<^verbatim>\<open>s.strip(chars)\<close>\<close>

definition strip_chars :: "string \<Rightarrow> string \<Rightarrow> string" where
  "strip_chars cs s =
     rev (dropWhile (\<lambda>c. c \<in> set cs) (rev (dropWhile (\<lambda>c. c \<in> set cs) s)))"

definition upper_char :: "char \<Rightarrow> char" where
  "upper_char c = (let n = (of_char c :: nat) in
                   if 97 \<le> n \<and> n \<le> 122 then char_of (n - 32) else c)"

text \<open>\<^verbatim>\<open>s.upper()\<close>\<close>

definition upper :: "string \<Rightarrow> string" where
  "upper s = map upper_char s"

fun starts_with :: "string \<Rightarrow> string \<Rightarrow> bool" where
  "starts_with s [] = True"
| "starts_with [] (p # ps) = False"
| "starts_with (c # cs) (p # ps) = (c = p \<and> starts_with cs ps)"

text \<open>\<^verbatim>\<open>sub in s\<close> on strings\<close>

fun contains :: "string \<Rightarrow> string \<Rightarrow> bool" where
  "contains [] sub = (sub = [])"
| "contains (c # cs) sub = (starts_with (c # cs) sub \<or> contains cs sub)"

text \<open>\<^verbatim>\<open>s.split(sep)\<close> for a separator of one character\<close>

fun split :: "char \<Rightarrow> string \<Rightarrow> string list" where
  "split sep [] = [[]]"
| "split sep (c # cs) =
     (if c = sep then [] # split sep cs
      else (case split sep cs of [] \<Rightarrow> [[c]] | w # ws \<Rightarrow> (c # w) # ws))"

subsection \<open>Numbers\<close>

text \<open>\<^verbatim>\<open>int(x)\<close> on a finite float truncates towards zero.\<close>

definition trunc :: "rat \<Rightarrow> int" where
  "trunc q = (if 0 \<le> q then \<lfloor>q\<rfloor> else \<lceil>q\<rceil>)"

text \<open>
  \<^verbatim>\<open>int(float(s))\<close> inside a handler for \<^verbatim>\<open>ValueError\<close> and \<^verbatim>\<open>TypeError\<close>, as
  \<^verbatim>\<open>safe_int\<close> and \<^verbatim>\<open>get_int\<close> have it: \<^verbatim>\<open>float\<close> raises \<^verbatim>\<open>ValueError\<close> on text that
  is no numeral and \<^verbatim>\<open>int\<close> raises it on a nan, and both give the default; \<^verbatim>\<open>int\<close> raises
  \<^verbatim>\<open>OverflowError\<close> on an infinity, which the handler does not catch.
\<close>

definition int_float_or :: "runtime \<Rightarrow> string \<Rightarrow> int \<Rightarrow> error + int" where
  "int_float_or rt s dflt =
     (case float_of rt s of
        None \<Rightarrow> Inr dflt
      | Some NaN \<Rightarrow> Inr dflt
      | Some PosInf \<Rightarrow> Inl OverflowError
      | Some NegInf \<Rightarrow> Inl OverflowError
      | Some (Finite q) \<Rightarrow> Inr (trunc q))"

text \<open>\<^verbatim>\<open>x >= c\<close> for a float \<open>x\<close> and a finite constant \<open>c\<close>\<close>

definition float_ge :: "pyfloat \<Rightarrow> rat \<Rightarrow> bool" where
  "float_ge x c = (case x of Finite q \<Rightarrow> c \<le> q | PosInf \<Rightarrow> True | NegInf \<Rightarrow> False | NaN \<Rightarrow> False)"

section \<open>The ISS estimator\<close>

datatype ISSBucket = INSPECT | OPTIONAL | PASS

datatype ISSSource = SAFETY | INSUFFICIENT

record ISSResult =
  iss_score :: int
  bucket :: ISSBucket
  source :: ISSSource
  group :: "int option"
  iss_case :: "string option"
  alerts :: "(string \<times> bool) list"
  confidence :: string

text \<open>
  \<^verbatim>\<open>ISSConfig\<close>. The field \<^verbatim>\<open>run_date\<close> is read nowhere and is left out.
\<close>

record ISSConfig =
  seed :: "int option"
  col_unsafe :: string
  col_hos :: string
  col_driver_fit :: string
  col_csaa :: string
  col_veh_maint :: string
  col_hm :: string
  col_crash :: string
  col_alert_unsafe :: string
  col_alert_hos :: string
  col_alert_driver_fit :: string
  col_alert_csaa :: string
  col_alert_veh_maint :: string
  col_alert_hm :: string
  col_alert_crash :: string

text \<open>\<^verbatim>\<open>ISSConfig()\<close>\<close>

definition default_config :: ISSConfig where
  "default_config =
     \<lparr> seed = None,
       col_unsafe = ''UNSAFE_DRIV_MEASURE'',
       col_hos = ''HOS_DRIV_MEASURE'',
       col_driver_fit = ''DRIV_FIT_MEASURE'',
       col_csaa = ''CONTR_SUBST_MEASURE'',
       col_veh_maint = ''VEH_MAINT_MEASURE'',
       col_hm = ''HM_MEASURE'',
       col_crash = ''CRASH_MEASURE'',
       col_alert_unsafe = ''UNSAFE_DRIV_ALERT'',
       col_alert_hos = ''HOS_DRIV_ALERT'',
       col_alert_driver_fit = ''DRIV_FIT_ALERT'',
       col_alert_csaa = ''CONTR_SUBST_ALERT'',
       col_alert_veh_maint = ''VEH_MAINT_ALERT'',
       col_alert_hm = ''HM_ALERT'',
       col_alert_crash = ''CRASH_ALERT'' \<rparr>"

definition ROADSIDE_BASICS :: "string list" where
  "ROADSIDE_BASICS = [''HOS'', ''DRIVER_FIT'', ''CSAA'', ''VEH_MAINT'', ''HM'']"

definition true_words :: "string list" where
  "true_words = [''Y'', ''YES'', ''TRUE'', ''1'', ''X'']"

text \<open>
  \<^verbatim>\<open>get_alert\<close>: \<^verbatim>\<open>str(row.get(col, '') or '').strip().upper()\<close> is one of the true
  words. A \<^verbatim>\<open>None\<close> or empty cell becomes the empty text.
\<close>

definition get_alert :: "row \<Rightarrow> string \<Rightarrow> bool" where
  "get_alert r col =
     (let val = upper (strip (case dict_get r col (Some '''') of None \<Rightarrow> '''' | Some s \<Rightarrow> s))
      in val \<in> set true_words)"

definition get_percentile :: "runtime \<Rightarrow> row \<Rightarrow> string \<Rightarrow> rat option" where
  "get_percentile rt r col =
     (case dict_get r col (Some '''') of
        None \<Rightarrow> None
      | Some s \<Rightarrow>
          if s = '''' then None
          else (case float_of rt (strip s) of
                  Some (Finite pct) \<Rightarrow> if 0 \<le> pct \<and> pct \<le> 100 then Some pct else None
                | _ \<Rightarrow> None))"

definition get_int :: "runtime \<Rightarrow> row \<Rightarrow> string \<Rightarrow> int \<Rightarrow> error + int" where
  "get_int rt r col dflt =
     (case dict_get r col (Some '''') of
        None \<Rightarrow> Inr dflt
      | Some s \<Rightarrow> if s = '''' then Inr dflt else int_float_or rt (strip s) dflt)"

text \<open>\<^verbatim>\<open>alerts.get(k, False)\<close> and \<^verbatim>\<open>percentiles.get(k)\<close>\<close>

definition alert_of :: "(string \<times> bool) list \<Rightarrow> string \<Rightarrow> bool" where
  "alert_of al k = (case map_of al k of None \<Rightarrow> False | Some b \<Rightarrow> b)"

definition pct_of :: "(string \<times> rat option) list \<Rightarrow> string \<Rightarrow> rat option" where
  "pct_of ps k = (case map_of ps k of None \<Rightarrow> None | Some p \<Rightarrow> p)"

definition high_risk :: "bool \<Rightarrow> rat option \<Rightarrow> nat" where
  "high_risk a p = (if a \<and> p \<noteq> None \<and> 85 \<le> the p then 1 else 0)"

definition assign_group ::
  "(string \<times> bool) list \<Rightarrow> (string \<times> rat option) list \<Rightarrow> nat \<Rightarrow> nat \<Rightarrow> int option" where
  "assign_group al percentiles n_alert_total n_alert_roadside =
     (let alert_unsafe = alert_of al ''UNSAFE'';
          alert_hos = alert_of al ''HOS'';
          alert_driver_fit = alert_of al ''DRIVER_FIT'';
          alert_csaa = alert_of al ''CSAA'';
          alert_veh_maint = alert_of al ''VEH_MAINT'';
          alert_hm = alert_of al ''HM'';
          alert_crash = alert_of al ''CRASH'';
          pct_unsafe = pct_of percentiles ''UNSAFE'';
          pct_hos = pct_of percentiles ''HOS'';
          pct_crash = pct_of percentiles ''CRASH'';
          has_any_percentile = list_ex (\<lambda>(k, p). p \<noteq> None) percentiles
      in
        if \<not> has_any_percentile then None
        else if 4 \<le> n_alert_total then Some 1
        else
          (let high_risk_alerts =
                 high_risk alert_unsafe pct_unsafe + high_risk alert_hos pct_hos
                 + high_risk alert_crash pct_crash
           in
             if 2 \<le> n_alert_total \<and> 2 \<le> high_risk_alerts then Some 1
             else if 3 \<le> n_alert_roadside then Some 2
             else if n_alert_roadside = 2 then Some 3
             else if 2 \<le> n_alert_total \<and> n_alert_roadside = 1 then Some 4
             else if n_alert_total = 1 \<and> alert_hos then Some 5
             else if n_alert_total = 1 \<and> alert_unsafe then Some 7
             else if n_alert_total = 1 \<and> alert_crash then Some 8
             else if n_alert_total = 1 \<and> alert_veh_maint then Some 9
             else if n_alert_total = 1 \<and> alert_driver_fit then Some 10
             else if n_alert_total = 1 \<and> alert_csaa then Some 11
             else if n_alert_total = 1 \<and> alert_hm then Some 12
             else if has_any_percentile \<and> n_alert_total = 0 then Some 13
             else Some 13))"

text \<open>
  \<^verbatim>\<open>safety_algorithm_score(group, rng)\<close>; the generator is given by its seed.
\<close>

definition safety_algorithm_score :: "runtime \<Rightarrow> int \<Rightarrow> int \<Rightarrow> int" where
  "safety_algorithm_score rt g sd =
     (if g \<in> {1, 2, 3, 4, 5} then
        (let base = 99 - (g - 1) * 4; variation = randint rt sd (- 3) 3
         in max 75 (min 99 (base + variation)))
      else if g \<in> {7, 8, 9, 10, 11, 12} then
        (let base = 74 - (g - 7) * 4; variation = randint rt sd (- 3) 3
         in max 50 (min 74 (base + variation)))
      else if g = 13 then randint rt sd 25 49
      else 62)"

definition insufficient_result :: "int \<Rightarrow> string \<Rightarrow> ISSResult" where
  "insufficient_result score c =
     \<lparr> iss_score = score, bucket = OPTIONAL, source = INSUFFICIENT, group = None,
       iss_case = Some c, alerts = [], confidence = ''estimated'' \<rparr>"

definition fleet_size :: "runtime \<Rightarrow> row \<Rightarrow> error + int" where
  "fleet_size rt carrier =
     ebind (get_int rt carrier ''POWER_UNITS'' 0) (\<lambda>p0.
     ebind (if p0 = 0 then get_int rt carrier ''TRUCK_UNITS'' 0 else Inr p0) (\<lambda>p1.
     (if p1 = 0 then get_int rt carrier ''TOT_PWR'' 1 else Inr p1)))"

definition insufficient_data_algorithm ::
  "runtime \<Rightarrow> row \<Rightarrow> row \<Rightarrow> ISSConfig \<Rightarrow> int \<Rightarrow> error + ISSResult" where
  "insufficient_data_algorithm rt carrier basic_row config sd =
     ebind (get_int rt basic_row ''VEHICLE_INSP_CT'' 0) (\<lambda>vehicle_insp_ct.
     ebind (get_int rt basic_row ''DRIVER_INSP_CT'' 0) (\<lambda>driver_insp_ct.
     ebind (fleet_size rt carrier) (\<lambda>power_units.
       if 5 \<le> vehicle_insp_ct \<or> 3 \<le> driver_insp_ct then
         Inr (insufficient_result 50 ''D2'')
       else if vehicle_insp_ct = 4 \<or> driver_insp_ct = 2 then
         Inr (insufficient_result (randint rt sd 55 62) ''D3'')
       else if vehicle_insp_ct = 0 \<and> driver_insp_ct = 0 then
         Inr (insufficient_result
                (if 100 \<le> power_units then 69
                 else if 50 \<le> power_units then 68
                 else if 20 \<le> power_units then 67
                 else if 10 \<le> power_units then 66
                 else if 5 \<le> power_units then 65
                 else if 2 \<le> power_units then 64
                 else 63) ''D4'')
       else
         (let total_insp = vehicle_insp_ct + driver_insp_ct;
              bin_score = min 19 (total_insp * 3)
          in Inr (insufficient_result (50 + bin_score) ''D5'')))))"

text \<open>
  The seed of the generator: \<^verbatim>\<open>config.seed if config.seed else hash(dot) % (2**31)\<close>
  with \<^verbatim>\<open>dot = str(carrier.get('DOT_NUMBER', ''))\<close>. A configured seed of 0 is falsy.
\<close>

definition rng_seed :: "runtime \<Rightarrow> row \<Rightarrow> ISSConfig \<Rightarrow> int" where
  "rng_seed rt carrier config =
     (let dot = (case dict_get carrier ''DOT_NUMBER'' (Some '''') of
                   None \<Rightarrow> ''None'' | Some s \<Rightarrow> s)
      in case seed config of
           None \<Rightarrow> str_hash rt dot mod 2 ^ 31
         | Some s \<Rightarrow> if s \<noteq> 0 then s else str_hash rt dot mod 2 ^ 31)"

definition bucket_of :: "int \<Rightarrow> ISSBucket" where
  "bucket_of score = (if 75 \<le> score then INSPECT else if 50 \<le> score then OPTIONAL else PASS)"

definition estimate_iss ::
  "runtime \<Rightarrow> row \<Rightarrow> row option \<Rightarrow> ISSConfig option \<Rightarrow> error + ISSResult" where
  "estimate_iss rt carrier basic_row cfg =
     (let config = (case cfg of None \<Rightarrow> default_config | Some c \<Rightarrow> c);
          sd = rng_seed rt carrier config
      in case basic_row of
           None \<Rightarrow> insufficient_data_algorithm rt carrier Map.empty config sd
         | Some br \<Rightarrow>
             (let al = [(''UNSAFE'', get_alert br (col_alert_unsafe config)),
                        (''HOS'', get_alert br (col_alert_hos config)),
                        (''DRIVER_FIT'', get_alert br (col_alert_driver_fit config)),
                        (''CSAA'', get_alert br (col_alert_csaa config)),
                        (''VEH_MAINT'', get_alert br (col_alert_veh_maint config)),
                        (''HM'', get_alert br (col_alert_hm config)),
                        (''CRASH'', get_alert br (col_alert_crash config))];
                  percentiles =
                       [(''UNSAFE'', get_percentile rt br (col_unsafe config)),
                        (''HOS'', get_percentile rt br (col_hos config)),
                        (''DRIVER_FIT'', get_percentile rt br (col_driver_fit config)),
                        (''CSAA'', get_percentile rt br (col_csaa config)),
                        (''VEH_MAINT'', get_percentile rt br (col_veh_maint config)),
                        (''HM'', get_percentile rt br (col_hm config)),
                        (''CRASH'', get_percentile rt br (col_crash config))];
                  n_alert_total = length (filter snd al);
                  n_alert_roadside =
                    length (filter (\<lambda>(basic, a). a \<and> basic \<in> set ROADSIDE_BASICS) al)
              in case assign_group al percentiles n_alert_total n_alert_roadside of
                   None \<Rightarrow> insufficient_data_algorithm rt carrier br config sd
                 | Some g \<Rightarrow>
                     (let score = safety_algorithm_score rt g sd
                      in Inr \<lparr> iss_score = score, bucket = bucket_of score, source = SAFETY,
                               group = Some g, iss_case = None, alerts = al,
                               confidence = ''estimated'' \<rparr>)))"

text \<open>
  \<^verbatim>\<open>get_iss_display_data\<close> copies the fields of the result into a dictionary; the model
  keeps the result.
\<close>

definition get_iss_display_data ::
  "runtime \<Rightarrow> row \<Rightarrow> row option \<Rightarrow> ISSConfig option \<Rightarrow> error + ISSResult" where
  "get_iss_display_data rt carrier basic_row cfg = estimate_iss rt carrier basic_row cfg"

section \<open>The scoring engine\<close>

subsection \<open>Utility functions\<close>

definition safe_int :: "runtime \<Rightarrow> cell \<Rightarrow> int \<Rightarrow> error + int" where
  "safe_int rt v dflt =
     (case v of
        None \<Rightarrow> Inr dflt
      | Some s \<Rightarrow>
          if s = '''' then Inr dflt
          else int_float_or rt (strip_chars [CHR 0x22] (strip s)) dflt)"

definition safe_float :: "runtime \<Rightarrow> cell \<Rightarrow> pyfloat \<Rightarrow> pyfloat" where
  "safe_float rt v dflt =
     (case v of
        None \<Rightarrow> dflt
      | Some s \<Rightarrow>
          if s = '''' then dflt
          else (case float_of rt (strip_chars [CHR 0x22] (strip s)) of
                  None \<Rightarrow> dflt
                | Some x \<Rightarrow> x))"

definition is_true_value :: "cell \<Rightarrow> bool" where
  "is_true_value v = (case v of None \<Rightarrow> False | Some s \<Rightarrow> strip (upper s) \<in> set true_words)"

definition safe_str :: "cell \<Rightarrow> string \<Rightarrow> string" where
  "safe_str v dflt = (case v of None \<Rightarrow> dflt | Some s \<Rightarrow> s)"

text \<open>
  \<^verbatim>\<open>safe_int(row.get(col, 0))\<close>: for a missing key the argument is the integer 0, and
  \<^verbatim>\<open>safe_int(0)\<close> is 0.
\<close>

definition safe_int_get0 :: "runtime \<Rightarrow> row \<Rightarrow> string \<Rightarrow> error + int" where
  "safe_int_get0 rt r col = (case r col of None \<Rightarrow> Inr 0 | Some v \<Rightarrow> safe_int rt v 0)"

text \<open>\<^verbatim>\<open>sum(safe_int(carrier.get(f, '')) for f in fields)\<close>\<close>

fun sum_fields :: "runtime \<Rightarrow> row \<Rightarrow> string list \<Rightarrow> error + int" where
  "sum_fields rt carrier [] = Inr 0"
| "sum_fields rt carrier (f # fs) =
     ebind (safe_int rt (dict_get carrier f (Some '''')) 0) (\<lambda>x.
     ebind (sum_fields rt carrier fs) (\<lambda>s. Inr (x + s)))"

subsection \<open>Eligibility\<close>

definition passenger_equipment_fields :: "string list" where
  "passenger_equipment_fields =
     [''OWNCOACH'', ''TRMCOACH'', ''TRPCOACH'', ''OWNBUS_16'', ''TRMBUS_16'', ''TRPBUS_16'',
      ''OWNSCHOOL_1_8'', ''OWNSCHOOL_9_15'', ''OWNSCHOOL_16'',
      ''TRMSCHOOL_1_8'', ''TRMSCHOOL_9_15'', ''TRMSCHOOL_16'',
      ''TRPSCHOOL_1_8'', ''TRPSCHOOL_9_15'', ''TRPSCHOOL_16'',
      ''OWNVAN_1_8'', ''OWNVAN_9_15'', ''TRMVAN_1_8'', ''TRMVAN_9_15'', ''TRPVAN_1_8'',
      ''TRPVAN_9_15'',
      ''OWNLIMO_1_8'', ''OWNLIMO_9_15'', ''OWNLIMO_16'',
      ''TRMLIMO_1_8'', ''TRMLIMO_9_15'', ''TRMLIMO_16'',
      ''TRPLIMO_1_8'', ''TRPLIMO_9_15'', ''TRPLIMO_16'']"

definition truck_power_fields :: "string list" where
  "truck_power_fields =
     [''TRUCK_UNITS'', ''POWER_UNITS'',
      ''OWNTRUCK'', ''OWNTRACT'', ''TRMTRUCK'', ''TRMTRACT'', ''TRPTRUCK'', ''TRPTRACT'']"

text \<open>Rule 1: the status is present and is not \<^verbatim>\<open>'A'\<close>.\<close>

definition inactive_status :: "row \<Rightarrow> bool" where
  "inactive_status carrier =
     (let status_code = strip (upper (safe_str (dict_get carrier ''STATUS_CODE'' (Some '''')) ''''))
      in status_code \<noteq> '''' \<and> status_code \<noteq> ''A'')"

text \<open>Rule 2, the tests made before the passenger equipment is summed.\<close>

definition passenger_class :: "row \<Rightarrow> bool" where
  "passenger_class carrier =
     (let classdef_upper = upper (safe_str (dict_get carrier ''CLASSDEF'' (Some '''')) '''')
      in (contains classdef_upper ''PRIVATE PASSENGER''
          \<or> ''PASSENGER'' \<in> set (split CHR '';'' classdef_upper))
         \<or> is_true_value (dict_get carrier ''CRGO_PASSENGERS'' (Some '''')))"

text \<open>Rule 2, the tests made after the passenger equipment is summed.\<close>

definition private_passenger :: "row \<Rightarrow> bool" where
  "private_passenger carrier =
     (is_true_value (dict_get carrier ''PRIVATE_PASSENGER_BUSINESS'' (Some ''''))
      \<or> is_true_value (dict_get carrier ''PRIVATE_PASSENGER_NONBUSINESS'' (Some '''')))"

text \<open>Rules 4 to 6: the authority of a carrier that passed rules 1 to 3.\<close>

definition authority_outcome :: "row \<Rightarrow> bool \<times> string" where
  "authority_outcome carrier =
     (let classdef = upper (safe_str (dict_get carrier ''CLASSDEF'' (Some '''')) '''');
          has_authorized_for_hire = contains classdef ''AUTHORIZED FOR HIRE'';
          has_exempt_for_hire = contains classdef ''EXEMPT FOR HIRE'';
          has_private_property = contains classdef ''PRIVATE PROPERTY'';
          has_us_mail = (contains classdef ''U. S. MAIL'' \<or> contains classdef ''U.S. MAIL''
                         \<or> contains classdef ''US MAIL'')
      in
        if has_authorized_for_hire \<or> has_exempt_for_hire then (False, '''')
        else if has_us_mail then (False, '''')
        else if has_private_property then (True, ''private_not_for_hire'')
        else
          (let is_private_property = is_true_value (dict_get carrier ''PRIVATE_PROPERTY'' (Some ''''));
               is_authorized_for_hire =
                 is_true_value (dict_get carrier ''AUTHORIZED_FOR_HIRE'' (Some ''''));
               is_exempt_for_hire = is_true_value (dict_get carrier ''EXEMPT_FOR_HIRE'' (Some ''''))
           in
             if is_private_property \<and> \<not> is_authorized_for_hire \<and> \<not> is_exempt_for_hire
             then (True, ''private_not_for_hire'')
             else if is_authorized_for_hire \<or> is_exempt_for_hire then (False, '''')
             else
               (let other_authority =
                      (is_true_value (dict_get carrier ''US_MAIL'' (Some ''''))
                       \<or> is_true_value (dict_get carrier ''FEDERAL_GOVERNMENT'' (Some ''''))
                       \<or> is_true_value (dict_get carrier ''STATE_GOVERNMENT'' (Some ''''))
                       \<or> is_true_value (dict_get carrier ''LOCAL_GOVERNMENT'' (Some ''''))
                       \<or> is_true_value (dict_get carrier ''INDIAN_TRIBE'' (Some ''''))
                       \<or> is_true_value (dict_get carrier ''MIGRANT'' (Some '''')))
                in if other_authority then (False, '''')
                   else (True, ''no_for_hire_authority''))))"

definition should_exclude_carrier :: "runtime \<Rightarrow> row \<Rightarrow> error + (bool \<times> string)" where
  "should_exclude_carrier rt carrier =
     (if inactive_status carrier then Inr (True, ''inactive_status'')
      else if passenger_class carrier then Inr (True, ''passenger_operation'')
      else
        ebind (sum_fields rt carrier passenger_equipment_fields) (\<lambda>total_passenger_equipment.
          if 0 < total_passenger_equipment then Inr (True, ''passenger_operation'')
          else if private_passenger carrier then Inr (True, ''passenger_operation'')
          else
            ebind (sum_fields rt carrier truck_power_fields) (\<lambda>total_truck_power.
              if total_truck_power \<le> 0 then Inr (True, ''no_truck_power'')
              else Inr (authority_outcome carrier))))"

subsection \<open>Component scores\<close>

text \<open>
  Scores are Python floats. Every component score is 100 less a sum of whole deductions,
  which binary floating point represents exactly, so the scores are modelled as
  rationals. The scorers also return lists of flag texts; no score depends on them and
  they are left out of the model.
\<close>

text \<open>\<^verbatim>\<open>a / b\<close>\<close>

definition py_div :: "rat \<Rightarrow> rat \<Rightarrow> error + rat" where
  "py_div a b = (if b = 0 then Inl ZeroDivisionError else Inr (a / b))"

text \<open>
  \<^verbatim>\<open>round(x, n)\<close>: to the nearest multiple of \<open>10 ^ -n\<close>, a tie to the even one.
\<close>

definition round_half_even :: "rat \<Rightarrow> int" where
  "round_half_even x =
     (let f = \<lfloor>x\<rfloor>; d = x - of_int f
      in if d < 1 / 2 then f else if 1 / 2 < d then f + 1 else if even f then f else f + 1)"

definition py_round :: "rat \<Rightarrow> nat \<Rightarrow> rat" where
  "py_round x n = of_int (round_half_even (x * 10 ^ n)) / 10 ^ n"

text \<open>
  The body of the \<^verbatim>\<open>try\<close> block of \<^verbatim>\<open>calculate_experience_score\<close>: the years between
  the registration date and now, \<open>None\<close> where a \<^verbatim>\<open>ValueError\<close> is caught.
\<close>

definition years_operating :: "runtime \<Rightarrow> string \<Rightarrow> rat option" where
  "years_operating rt add_date_str =
     (case int_of rt (take 4 add_date_str) of
        None \<Rightarrow> None
      | Some add_year \<Rightarrow>
          (case int_of rt (take 2 (drop 4 add_date_str)) of
             None \<Rightarrow> None
           | Some add_month \<Rightarrow>
               (case int_of rt (take 2 (drop 6 add_date_str)) of
                  None \<Rightarrow> None
                | Some add_day \<Rightarrow>
                    (case days_since rt add_year add_month add_day of
                       None \<Rightarrow> None
                     | Some days \<Rightarrow> Some (of_int days / (36525 / 100))))))"

definition calculate_experience_score :: "runtime \<Rightarrow> row \<Rightarrow> rat" where
  "calculate_experience_score rt carrier =
     (let score = 100;
          add_date_str = safe_str (dict_get carrier ''ADD_DATE'' (Some '''')) ''''
      in max 0
           (if add_date_str \<noteq> '''' \<and> 8 \<le> length add_date_str then
              (case years_operating rt add_date_str of
                 None \<Rightarrow> score
               | Some y \<Rightarrow>
                   if y < 1 then score - 30
                   else if y < 2 then score - 20
                   else if y < 3 then score - 10
                   else if y < 5 then score - 5
                   else score)
            else score))"

definition basic_categories :: "(string \<times> string) list" where
  "basic_categories =
     [(''UNSAFE_DRIV_MEASURE'', ''UNSAFE_DRIV_ALERT''),
      (''HOS_DRIV_MEASURE'', ''HOS_DRIV_ALERT''),
      (''DRIV_FIT_MEASURE'', ''DRIV_FIT_ALERT''),
      (''CONTR_SUBST_MEASURE'', ''CONTR_SUBST_ALERT''),
      (''VEH_MAINT_MEASURE'', ''VEH_MAINT_ALERT''),
      (''HM_MEASURE'', ''HM_ALERT''),
      (''CRASH_MEASURE'', ''CRASH_ALERT'')]"

text \<open>One pass of the loop over the BASIC categories.\<close>

definition safety_step :: "runtime \<Rightarrow> row \<Rightarrow> string \<times> string \<Rightarrow> rat \<Rightarrow> rat" where
  "safety_step rt basic cat score =
     (let measure = safe_float rt (dict_get basic (fst cat) None) (Finite 0);
          has_alert = is_true_value (dict_get basic (snd cat) (Some ''''))
      in if has_alert then score - 15
         else if float_ge measure 75 then score - 10
         else if float_ge measure 65 then score - 5
         else score)"

text \<open>The loop over the BASIC categories, with the running score.\<close>

fun safety_loop :: "runtime \<Rightarrow> row \<Rightarrow> (string \<times> string) list \<Rightarrow> rat \<Rightarrow> rat" where
  "safety_loop rt basic [] score = score"
| "safety_loop rt basic (cat # rest) score =
     safety_loop rt basic rest (safety_step rt basic cat score)"

definition calculate_safety_score :: "runtime \<Rightarrow> row \<Rightarrow> row list \<Rightarrow> rat" where
  "calculate_safety_score rt carrier basic_data =
     (case basic_data of
        [] \<Rightarrow> 100
      | basic # _ \<Rightarrow> max 0 (safety_loop rt basic basic_categories 100))"

text \<open>
  The loop over the crash records: the running totals of fatalities, injuries and
  hazardous-material releases.
\<close>

fun crash_totals :: "runtime \<Rightarrow> row list \<Rightarrow> int \<times> int \<times> int \<Rightarrow> error + (int \<times> int \<times> int)" where
  "crash_totals rt [] acc = Inr acc"
| "crash_totals rt (crash # rest) (fatalities, injuries, hazmat_releases) =
     ebind (safe_int_get0 rt crash ''FATALITIES'') (\<lambda>f.
     ebind (safe_int_get0 rt crash ''INJURIES'') (\<lambda>i.
       crash_totals rt rest
         (fatalities + f, injuries + i,
          if is_true_value (dict_get crash ''HAZMAT_RELEASED'' (Some ''''))
          then hazmat_releases + 1 else hazmat_releases)))"

definition crash_deductions :: "nat \<Rightarrow> int \<times> int \<times> int \<Rightarrow> rat" where
  "crash_deductions total_crashes t =
     (case t of (fatalities, injuries, hazmat_releases) \<Rightarrow>
        (let score = 100;
             score = (if 0 < fatalities then score - of_int (min 50 (fatalities * 25)) else score);
             score = (if 0 < injuries then score - of_int (min 30 (injuries * 5)) else score);
             score = (if 0 < hazmat_releases then score - of_int (min 20 (hazmat_releases * 10))
                      else score);
             score = (if 5 \<le> total_crashes then score - 15
                      else if 3 \<le> total_crashes then score - 10
                      else score)
         in max 0 score))"

definition calculate_crash_score :: "runtime \<Rightarrow> row \<Rightarrow> row list \<Rightarrow> error + rat" where
  "calculate_crash_score rt carrier crashes =
     (if crashes = [] then Inr 100
      else ebind (crash_totals rt crashes (0, 0, 0))
             (\<lambda>t. Inr (crash_deductions (length crashes) t)))"

text \<open>
  The out-of-service rate is a quotient of two counts times 100; at the three
  thresholds the floating-point value and the exact one compare alike.
\<close>

definition calculate_inspection_score ::
  "runtime \<Rightarrow> row \<Rightarrow> row list \<Rightarrow> row list \<Rightarrow> error + rat" where
  "calculate_inspection_score rt carrier inspections violations =
     (if inspections = [] then Inr 100
      else
        (let total_inspections = length inspections;
             oos_count = length (filter (\<lambda>i. is_true_value (dict_get i ''OOS_TOTAL'' (Some '''')))
                                   inspections)
         in if 0 < total_inspections then
              ebind (py_div (of_nat oos_count) (of_nat total_inspections)) (\<lambda>q.
                (let oos_rate = q * 100
                 in Inr (max 0 (if 50 \<le> oos_rate then 100 - 30
                                else if 30 \<le> oos_rate then 100 - 20
                                else if 20 \<le> oos_rate then 100 - 10
                                else 100))))
            else Inr (max 0 100)))"

subsection \<open>Scoring one carrier\<close>

text \<open>
  The result dictionary of \<^verbatim>\<open>process_carrier\<close>, with the entries that are computed;
  the entries copied from the carrier as they are (names, addresses, contact data,
  operating scope, commodities, trends) are left out. The entries \<^verbatim>\<open>iss_score\<close>,
  \<^verbatim>\<open>iss_bucket\<close> and \<^verbatim>\<open>iss_source\<close> are \<open>sr_iss_score\<close>, \<open>sr_iss_bucket\<close> and
  \<open>sr_iss_source\<close>.
\<close>

record score_result =
  dot_number :: string
  power_units :: int
  drivers :: int
  total_drivers :: int
  cdl_drivers :: int
  own_trucks :: int
  own_tractors :: int
  own_trailers :: int
  term_trucks :: int
  term_tractors :: int
  term_trailers :: int
  trip_trucks :: int
  trip_tractors :: int
  trip_trailers :: int
  experience_score :: rat
  safety_score :: rat
  crash_score :: rat
  inspection_score :: rat
  combined_score :: rat
  annual_mileage :: int
  has_sufficient_mileage :: bool
  sr_iss_score :: "int option"
  sr_iss_bucket :: "ISSBucket option"
  sr_iss_source :: "ISSSource option"
  crash_count :: nat
  inspection_count :: nat
  violation_count :: nat
  rank :: "nat option"
  fred_score_grade :: "string option"
  insurance_rating :: "rat option"

text \<open>The records joined to the carriers, by DOT number.\<close>

record dataset =
  basic_by_dot :: "string \<rightharpoonup> row list"
  crashes_by_dot :: "string \<rightharpoonup> row list"
  inspections_by_dot :: "string \<rightharpoonup> row list"
  violations_by_dot :: "string \<rightharpoonup> row list"

text \<open>\<^verbatim>\<open>data[...].get(dot, [])\<close>\<close>

definition rows_of :: "(string \<rightharpoonup> row list) \<Rightarrow> string \<Rightarrow> row list" where
  "rows_of m dot = (case m dot of None \<Rightarrow> [] | Some rs \<Rightarrow> rs)"

text \<open>
  The ISS entries: the estimator runs only when it was imported (\<open>has_iss\<close>) and the
  carrier has a basic record; an exception of the estimator leaves the entries empty.
\<close>

definition iss_data :: "runtime \<Rightarrow> bool \<Rightarrow> row \<Rightarrow> row list \<Rightarrow> ISSResult option" where
  "iss_data rt has_iss carrier basic_data =
     (if has_iss \<and> basic_data \<noteq> [] then
        (case get_iss_display_data rt carrier (Some (hd basic_data)) None of
           Inl e \<Rightarrow> None
         | Inr r \<Rightarrow> Some r)
      else None)"

definition weighted_sum :: "rat \<Rightarrow> rat \<Rightarrow> rat \<Rightarrow> rat \<Rightarrow> rat" where
  "weighted_sum e s c i = e * (15 / 100) + s * (35 / 100) + c * (30 / 100) + i * (20 / 100)"

text \<open>\<^verbatim>\<open>str(carrier.get('DOT_NUMBER', '')).strip()\<close>\<close>

definition carrier_dot :: "row \<Rightarrow> string" where
  "carrier_dot carrier =
     strip (case dict_get carrier ''DOT_NUMBER'' (Some '''') of None \<Rightarrow> ''None'' | Some s \<Rightarrow> s)"

definition process_carrier :: "runtime \<Rightarrow> bool \<Rightarrow> row \<Rightarrow> dataset \<Rightarrow> error + score_result" where
  "process_carrier rt has_iss carrier data =
     (let dot = carrier_dot carrier;
          basic_data = rows_of (basic_by_dot data) dot;
          crashes = rows_of (crashes_by_dot data) dot;
          inspections = rows_of (inspections_by_dot data) dot;
          violations = rows_of (violations_by_dot data) dot;
          experience = calculate_experience_score rt carrier;
          safety = calculate_safety_score rt carrier basic_data
      in
        ebind (calculate_crash_score rt carrier crashes) (\<lambda>crash.
        ebind (calculate_inspection_score rt carrier inspections violations) (\<lambda>inspection.
        ebind (safe_int_get0 rt carrier ''MCS150_MILEAGE'') (\<lambda>m0.
        ebind (if m0 = 0 then safe_int_get0 rt carrier ''TOT_MILEAGE'' else Inr m0) (\<lambda>mileage.
        (let iss = iss_data rt has_iss carrier basic_data in
        ebind (safe_int_get0 rt carrier ''OWNTRUCK'') (\<lambda>v_own_trucks.
        ebind (safe_int_get0 rt carrier ''OWNTRACT'') (\<lambda>v_own_tractors.
        ebind (safe_int_get0 rt carrier ''OWNTRAIL'') (\<lambda>v_own_trailers.
        ebind (safe_int_get0 rt carrier ''TRMTRUCK'') (\<lambda>v_term_trucks.
        ebind (safe_int_get0 rt carrier ''TRMTRACT'') (\<lambda>v_term_tractors.
        ebind (safe_int_get0 rt carrier ''TRMTRAIL'') (\<lambda>v_term_trailers.
        ebind (safe_int_get0 rt carrier ''TRPTRUCK'') (\<lambda>v_trip_trucks.
        ebind (safe_int_get0 rt carrier ''TRPTRACT'') (\<lambda>v_trip_tractors.
        ebind (safe_int_get0 rt carrier ''TRPTRAIL'') (\<lambda>v_trip_trailers.
        ebind (safe_int_get0 rt carrier ''POWER_UNITS'') (\<lambda>v_power_units.
        ebind (safe_int_get0 rt carrier ''DRIVERS'') (\<lambda>v_drivers.
        ebind (safe_int_get0 rt carrier ''TOTAL_DRIVERS'') (\<lambda>v_total_drivers.
        ebind (safe_int_get0 rt carrier ''TOTAL_CDL'') (\<lambda>v_cdl_drivers.
          Inr \<lparr> dot_number = dot,
                power_units = v_power_units,
                drivers = v_drivers,
                total_drivers = v_total_drivers,
                cdl_drivers = v_cdl_drivers,
                own_trucks = v_own_trucks,
                own_tractors = v_own_tractors,
                own_trailers = v_own_trailers,
                term_trucks = v_term_trucks,
                term_tractors = v_term_tractors,
                term_trailers = v_term_trailers,
                trip_trucks = v_trip_trucks,
                trip_tractors = v_trip_tractors,
                trip_trailers = v_trip_trailers,
                experience_score = py_round experience 1,
                safety_score = py_round safety 1,
                crash_score = py_round crash 1,
                inspection_score = py_round inspection 1,
                combined_score = py_round (weighted_sum experience safety crash inspection) 1,
                annual_mileage = mileage,
                has_sufficient_mileage = (100000 \<le> mileage),
                sr_iss_score = map_option iss_score iss,
                sr_iss_bucket = map_option bucket iss,
                sr_iss_source = map_option source iss,
                crash_count = length crashes,
                inspection_count = length inspections,
                violation_count = length violations,
                rank = None,
                fred_score_grade = None,
                insurance_rating = None \<rparr>)))))))))))))))))))"

subsection \<open>The passes over the population\<close>

text \<open>
  \<^verbatim>\<open>eligible = [r for r in results if r['has_sufficient_mileage']]\<close> is a list of
  references to dictionaries of \<^verbatim>\<open>results\<close>. The model keeps the positions of these
  dictionaries in \<open>results\<close>; an assignment \<^verbatim>\<open>r[key] = v\<close> through a reference updates
  \<open>results\<close> at that position.
\<close>

definition eligible_indices :: "score_result list \<Rightarrow> nat list" where
  "eligible_indices results =
     filter (\<lambda>i. has_sufficient_mileage (results ! i)) [0..<length results]"

text \<open>The body of the second loop of \<^verbatim>\<open>calculate_insurance_ratings\<close>, for one carrier.\<close>

definition rate_carrier :: "rat \<Rightarrow> rat \<Rightarrow> score_result \<Rightarrow> error + score_result" where
  "rate_carrier global_viol_rate global_crash_rate r =
     (if 0 < annual_mileage r then
        ebind (py_div (of_int (annual_mileage r)) 100000) (\<lambda>mileage_100k.
        ebind (py_div (of_nat (violation_count r)) mileage_100k) (\<lambda>viol_rate.
        ebind (py_div (of_nat (crash_count r)) mileage_100k) (\<lambda>crash_rate.
        ebind (if 0 < global_viol_rate then py_div viol_rate global_viol_rate else Inr 1)
          (\<lambda>viol_mult.
        ebind (if 0 < global_crash_rate then py_div crash_rate global_crash_rate else Inr 1)
          (\<lambda>crash_mult.
          (let rating = 100 * (4 / 10 * viol_mult + 6 / 10 * crash_mult);
               rating = max 1 (min 500 rating)
           in Inr (r\<lparr>insurance_rating := Some (py_round rating 2)\<rparr>)))))))
      else Inr r)"

fun rate_loop :: "rat \<Rightarrow> rat \<Rightarrow> nat list \<Rightarrow> score_result list \<Rightarrow> error + score_result list" where
  "rate_loop gv gc [] results = Inr results"
| "rate_loop gv gc (a # rest) results =
     (case rate_carrier gv gc (results ! a) of
        Inl e \<Rightarrow> Inl e
      | Inr r \<Rightarrow> rate_loop gv gc rest (results[a := r]))"

text \<open>\<^verbatim>\<open>(total_count / total_mileage) * 100000\<close>\<close>

definition global_rate :: "nat \<Rightarrow> int \<Rightarrow> error + rat" where
  "global_rate total_count total_mileage =
     ebind (py_div (of_nat total_count) (of_int total_mileage)) (\<lambda>q. Inr (q * 100000))"

text \<open>
  \<^verbatim>\<open>calculate_insurance_ratings\<close> returns the updated \<open>results\<close>. The statistics printed
  at its end change nothing and are left out.
\<close>

definition calculate_insurance_ratings :: "score_result list \<Rightarrow> error + score_result list" where
  "calculate_insurance_ratings results =
     (let eligible = eligible_indices results
      in if eligible = [] then Inr results
         else
           (let total_violations = sum_list (map (\<lambda>i. violation_count (results ! i)) eligible);
                total_crashes = sum_list (map (\<lambda>i. crash_count (results ! i)) eligible);
                total_mileage = sum_list (map (\<lambda>i. annual_mileage (results ! i)) eligible)
            in
              ebind (if 0 < total_mileage then global_rate total_violations total_mileage
                     else Inr 0) (\<lambda>global_viol_rate.
              ebind (if 0 < total_mileage then global_rate total_crashes total_mileage
                     else Inr 0) (\<lambda>global_crash_rate.
                rate_loop global_viol_rate global_crash_rate eligible results))))"

text \<open>
  The thresholds are decimal literals and the percentile is a quotient of two counts.
  The quotient of \<open>i\<close> by \<open>n\<close> is rounded to the nearest float, as the literal is, so
  for populations below \<open>10 ^ 13\<close> carriers the floats compare as the exact values do.
\<close>

definition grade_thresholds :: "(rat \<times> string) list" where
  "grade_thresholds =
     [(3 / 100, ''A+''), (10 / 100, ''A''), (20 / 100, ''A-''),
      (30 / 100, ''B+''), (45 / 100, ''B''), (55 / 100, ''B-''),
      (65 / 100, ''C+''), (75 / 100, ''C''), (85 / 100, ''C-''),
      (90 / 100, ''D+''), (96 / 100, ''D''), (98 / 100, ''D-''),
      (100 / 100, ''F'')]"

text \<open>The inner loop: the first grade whose threshold is not below the percentile.\<close>

fun first_grade :: "rat \<Rightarrow> (rat \<times> string) list \<Rightarrow> string option" where
  "first_grade percentile [] = None"
| "first_grade percentile ((threshold, grade) # rest) =
     (if percentile \<le> threshold then Some grade else first_grade percentile rest)"

text \<open>
  The loop over \<^verbatim>\<open>enumerate(eligible)\<close>; \<open>n\<close> is \<^verbatim>\<open>len(eligible)\<close>, \<open>i\<close> the running
  index, and the state is \<open>results\<close> with the counter \<^verbatim>\<open>grade_counts\<close>.
\<close>

fun grade_loop ::
  "nat \<Rightarrow> nat \<Rightarrow> nat list \<Rightarrow> score_result list \<times> (string \<Rightarrow> nat)
   \<Rightarrow> error + (score_result list \<times> (string \<Rightarrow> nat))" where
  "grade_loop n i [] st = Inr st"
| "grade_loop n i (a # rest) (results, grade_counts) =
     (case py_div (of_nat i) (of_nat n) of
        Inl e \<Rightarrow> Inl e
      | Inr percentile \<Rightarrow>
          (let r = (results ! a)\<lparr>rank := Some (i + 1)\<rparr>
           in case first_grade percentile grade_thresholds of
                None \<Rightarrow> grade_loop n (i + 1) rest (results[a := r], grade_counts)
              | Some grade \<Rightarrow>
                  grade_loop n (i + 1) rest
                    (results[a := r\<lparr>fred_score_grade := Some grade\<rparr>],
                     grade_counts(grade := grade_counts grade + 1))))"

text \<open>\<^verbatim>\<open>(count / len(eligible) * 100) if eligible else 0\<close>\<close>

definition grade_share :: "nat \<Rightarrow> nat \<Rightarrow> error + rat" where
  "grade_share n count =
     (if n \<noteq> 0 then ebind (py_div (of_nat count) (of_nat n)) (\<lambda>q. Inr (q * 100)) else Inr 0)"

text \<open>The lines of the grade distribution that are printed.\<close>

fun grade_distribution ::
  "nat \<Rightarrow> (string \<Rightarrow> nat) \<Rightarrow> (rat \<times> string) list \<Rightarrow> error + (string \<times> nat \<times> rat) list" where
  "grade_distribution n grade_counts [] = Inr []"
| "grade_distribution n grade_counts ((threshold, grade) # rest) =
     (case grade_share n (grade_counts grade) of
        Inl e \<Rightarrow> Inl e
      | Inr pct \<Rightarrow>
          (case grade_distribution n grade_counts rest of
             Inl e \<Rightarrow> Inl e
           | Inr ls \<Rightarrow> Inr ((grade, grade_counts grade, pct) # ls)))"

text \<open>
  \<^verbatim>\<open>eligible.sort(key=lambda x: x['combined_score'], reverse=True)\<close> is stable and
  descending; so is the stable ascending sort by the negated key.
\<close>

definition assign_fred_grades :: "score_result list \<Rightarrow> error + score_result list" where
  "assign_fred_grades results =
     (let eligible = sort_key (\<lambda>i. - combined_score (results ! i)) (eligible_indices results)
      in ebind (grade_loop (length eligible) 0 eligible (results, \<lambda>g. 0)) (\<lambda>st.
         ebind (grade_distribution (length eligible) (snd st) grade_thresholds) (\<lambda>ls.
           Inr (fst st))))"

fun process_each :: "runtime \<Rightarrow> bool \<Rightarrow> row list \<Rightarrow> dataset \<Rightarrow> error + score_result list" where
  "process_each rt has_iss [] data = Inr []"
| "process_each rt has_iss (carrier # rest) data =
     (case process_carrier rt has_iss carrier data of
        Inl e \<Rightarrow> Inl e
      | Inr r \<Rightarrow>
          (case process_each rt has_iss rest data of
             Inl e \<Rightarrow> Inl e
           | Inr rs \<Rightarrow> Inr (r # rs)))"

definition process_all_carriers ::
  "runtime \<Rightarrow> bool \<Rightarrow> row list \<Rightarrow> dataset \<Rightarrow> error + score_result list" where
  "process_all_carriers rt has_iss carriers data =
     ebind (process_each rt has_iss carriers data) (\<lambda>results.
     ebind (calculate_insurance_ratings results) (\<lambda>results.
       assign_fred_grades results))"

subsection \<open>The loops as functions of the position\<close>

text \<open>
  Both loops over \<open>eligible\<close> update \<open>results\<close> at one position per pass. \<open>apply_at f i as rs\<close>
  applies \<open>f i\<close>, \<open>f (i + 1)\<close>, ... at the positions \<open>as\<close> in turn; the loops are shown below
  to compute it, with \<open>graded\<close> and \<open>rated\<close> for \<open>f\<close>.
\<close>

fun apply_at :: "(nat \<Rightarrow> 'a \<Rightarrow> 'a) \<Rightarrow> nat \<Rightarrow> nat list \<Rightarrow> 'a list \<Rightarrow> 'a list" where
  "apply_at f i [] rs = rs"
| "apply_at f i (a # rest) rs = apply_at f (i + 1) rest (rs[a := f i (rs ! a)])"

text \<open>What one pass of the grading loop does to the carrier at index \<open>i\<close> of \<open>n\<close>.\<close>

definition graded :: "nat \<Rightarrow> nat \<Rightarrow> score_result \<Rightarrow> score_result" where
  "graded n i r =
     (case first_grade (of_nat i / of_nat n) grade_thresholds of
        None \<Rightarrow> r\<lparr>rank := Some (i + 1)\<rparr>
      | Some grade \<Rightarrow> r\<lparr>rank := Some (i + 1), fred_score_grade := Some grade\<rparr>)"

text \<open>The rating of a carrier with positive mileage, given the two global rates.\<close>

definition rating_of :: "rat \<Rightarrow> rat \<Rightarrow> score_result \<Rightarrow> rat" where
  "rating_of global_viol_rate global_crash_rate r =
     (let mileage_100k = of_int (annual_mileage r) / 100000;
          viol_rate = of_nat (violation_count r) / mileage_100k;
          crash_rate = of_nat (crash_count r) / mileage_100k;
          viol_mult = (if 0 < global_viol_rate then viol_rate / global_viol_rate else 1);
          crash_mult = (if 0 < global_crash_rate then crash_rate / global_crash_rate else 1)
      in py_round (max 1 (min 500 (100 * (4 / 10 * viol_mult + 6 / 10 * crash_mult)))) 2)"

definition rated :: "rat \<Rightarrow> rat \<Rightarrow> score_result \<Rightarrow> score_result" where
  "rated gv gc r =
     (if 0 < annual_mileage r then r\<lparr>insurance_rating := Some (rating_of gv gc r)\<rparr> else r)"

text \<open>The global rate of a total count over the eligible carriers.\<close>

definition global_rate_of :: "(score_result \<Rightarrow> nat) \<Rightarrow> score_result list \<Rightarrow> rat" where
  "global_rate_of count results =
     (let eligible = eligible_indices results;
          total_mileage = sum_list (map (\<lambda>i. annual_mileage (results ! i)) eligible)
      in if 0 < total_mileage
         then of_nat (sum_list (map (\<lambda>i. count (results ! i)) eligible)) / of_int total_mileage
              * 100000
         else 0)"

text \<open>
  The number of eligible carriers that hold the grade A+ after \<open>assign_fred_grades\<close>.
\<close>

definition a_plus_count :: "score_result list \<Rightarrow> error + nat" where
  "a_plus_count results =
     ebind (assign_fred_grades results) (\<lambda>graded_results.
       Inr (length (filter (\<lambda>i. fred_score_grade (graded_results ! i) = Some ''A+'')
                      (eligible_indices results))))"

section \<open>A sample runtime and sample data\<close>

text \<open>
  A runtime for concrete evaluation. Its \<open>read_float\<close> reads signed decimal integers and
  the words \<^verbatim>\<open>inf\<close>, \<^verbatim>\<open>-inf\<close> and \<^verbatim>\<open>nan\<close>, and on these texts it agrees with Python's
  \<^verbatim>\<open>float\<close>; \<open>read_int\<close> agrees with \<^verbatim>\<open>int\<close> on signed decimal integers.
\<close>

definition digit_of :: "char \<Rightarrow> nat option" where
  "digit_of c = (let n = (of_char c :: nat) in if 48 \<le> n \<and> n \<le> 57 then Some (n - 48) else None)"

fun nat_of_digits :: "nat \<Rightarrow> string \<Rightarrow> nat option" where
  "nat_of_digits acc [] = Some acc"
| "nat_of_digits acc (c # cs) =
     (case digit_of c of None \<Rightarrow> None | Some d \<Rightarrow> nat_of_digits (10 * acc + d) cs)"

definition read_int :: "string \<Rightarrow> int option" where
  "read_int s =
     (case s of
        [] \<Rightarrow> None
      | c # cs \<Rightarrow>
          if c = CHR ''-''
          then (if cs = [] then None else map_option (\<lambda>n. - int n) (nat_of_digits 0 cs))
          else map_option int (nat_of_digits 0 s))"

definition read_float :: "string \<Rightarrow> pyfloat option" where
  "read_float s =
     (if s = ''inf'' then Some PosInf
      else if s = ''-inf'' then Some NegInf
      else if s = ''nan'' then Some NaN
      else map_option (\<lambda>i. Finite (of_int i)) (read_int s))"

text \<open>
  The sample runtime takes every valid date to lie ten years back, hashes a text to the
  sum of its character codes plus a salt, and draws from a range by the seed.
\<close>

definition sample_runtime :: "int \<Rightarrow> runtime" where
  "sample_runtime salt =
     \<lparr> float_of = read_float,
       int_of = read_int,
       days_since = (\<lambda>y m d. if 1 \<le> m \<and> m \<le> 12 \<and> 1 \<le> d \<and> d \<le> 28 then Some 3652 else None),
       str_hash = (\<lambda>s. salt + int (sum_list (map of_char s))),
       randint = (\<lambda>sd a b. a + sd mod (b - a + 1)) \<rparr>"

text \<open>A scored carrier with the given score, mileage and counts.\<close>

definition sample_result :: "rat \<Rightarrow> int \<Rightarrow> nat \<Rightarrow> nat \<Rightarrow> score_result" where
  "sample_result score mileage violations crashes =
     \<lparr> dot_number = '''', power_units = 1, drivers = 1, total_drivers = 1, cdl_drivers = 1,
       own_trucks = 1, own_tractors = 0, own_trailers = 0,
       term_trucks = 0, term_tractors = 0, term_trailers = 0,
       trip_trucks = 0, trip_tractors = 0, trip_trailers = 0,
       experience_score = 100, safety_score = 100, crash_score = 100, inspection_score = 100,
       combined_score = score, annual_mileage = mileage,
       has_sufficient_mileage = (100000 \<le> mileage),
       sr_iss_score = None, sr_iss_bucket = None, sr_iss_source = None,
       crash_count = crashes, inspection_count = 0, violation_count = violations,
       rank = None, fred_score_grade = None, insurance_rating = None \<rparr>"

text \<open>One hundred eligible carriers with the scores 0.0, 0.1, ..., 9.9.\<close>

definition sample_population :: "score_result list" where
  "sample_population = map (\<lambda>k. sample_result (of_nat k / 10) 200000 1 1) [0..<100]"

text \<open>
  Two eligible carriers with the same violation count, crash count and mileage, a third
  eligible carrier and a carrier below the mileage threshold.
\<close>

definition sample_fleet :: "score_result list" where
  "sample_fleet =
     [sample_result 90 200000 2 1, sample_result 60 50000 3 0,
      sample_result 80 200000 2 1, sample_result 70 400000 0 1]"

text \<open>Three carriers below the mileage threshold.\<close>

definition sample_small_fleet :: "score_result list" where
  "sample_small_fleet =
     [sample_result 90 20000 2 1, sample_result 60 50000 3 0, sample_result 80 99999 0 0]"

text \<open>Joined records of the carrier with the DOT number 12345.\<close>

definition sample_dataset :: dataset where
  "sample_dataset =
     \<lparr> basic_by_dot =
         [''12345'' \<mapsto> [[''HOS_DRIV_ALERT'' \<mapsto> Some ''Y'', ''HOS_DRIV_MEASURE'' \<mapsto> Some ''80'',
                         ''UNSAFE_DRIV_MEASURE'' \<mapsto> Some ''80'']]],
       crashes_by_dot =
         [''12345'' \<mapsto> [[''FATALITIES'' \<mapsto> Some ''1'', ''INJURIES'' \<mapsto> Some ''0'']]],
       inspections_by_dot =
         [''12345'' \<mapsto> [[''OOS_TOTAL'' \<mapsto> Some ''Y''], [''OOS_TOTAL'' \<mapsto> Some ''N'']]],
       violations_by_dot = Map.empty \<rparr>"

text \<open>
  The carrier 12345: one basic record with an alert and a measure of 80, one crash with
  a fatality, two inspections of which one is out of service. Its scores are 100, 75, 75
  and 70, and the weighted sum 77.75 rounds to 77.8.
\<close>

definition sample_carrier :: row where
  "sample_carrier =
     [''DOT_NUMBER'' \<mapsto> Some ''12345'', ''ADD_DATE'' \<mapsto> Some ''20240115'',
      ''POWER_UNITS'' \<mapsto> Some ''10'']"

definition sample_scored :: score_result where
  "sample_scored =
     \<lparr> dot_number = ''12345'', power_units = 10, drivers = 0, total_drivers = 0,
       cdl_drivers = 0, own_trucks = 0, own_tractors = 0, own_trailers = 0,
       term_trucks = 0, term_tractors = 0, term_trailers = 0,
       trip_trucks = 0, trip_tractors = 0, trip_trailers = 0,
       experience_score = 100, safety_score = 75, crash_score = 75, inspection_score = 70,
       combined_score = 778 / 10, annual_mileage = 0, has_sufficient_mileage = False,
       sr_iss_score = Some 83, sr_iss_bucket = Some INSPECT, sr_iss_source = Some SAFETY,
       crash_count = 1, inspection_count = 2, violation_count = 0,
       rank = None, fred_score_grade = None, insurance_rating = None \<rparr>"

text \<open>A carrier without a basic record in the sample data, and its result.\<close>

definition sample_carrier_no_basic :: row where
  "sample_carrier_no_basic = [''DOT_NUMBER'' \<mapsto> Some ''777'', ''POWER_UNITS'' \<mapsto> Some ''10'']"

definition sample_scored_no_basic :: score_result where
  "sample_scored_no_basic =
     \<lparr> dot_number = ''777'', power_units = 10, drivers = 0, total_drivers = 0,
       cdl_drivers = 0, own_trucks = 0, own_tractors = 0, own_trailers = 0,
       term_trucks = 0, term_tractors = 0, term_trailers = 0,
       trip_trucks = 0, trip_tractors = 0, trip_trailers = 0,
       experience_score = 100, safety_score = 100, crash_score = 100, inspection_score = 100,
       combined_score = 100, annual_mileage = 0, has_sufficient_mileage = False,
       sr_iss_score = None, sr_iss_bucket = None, sr_iss_source = None,
       crash_count = 0, inspection_count = 0, violation_count = 0,
       rank = None, fred_score_grade = None, insurance_rating = None \<rparr>"

section \<open>Basic facts\<close>

lemma ebind_Inr [simp]: "ebind (Inr x) f = f x"
  by (simp add: ebind_def)

lemma ebind_Inl [simp]: "ebind (Inl e) f = Inl e"
  by (simp add: ebind_def)

lemma ebind_eq_Inr: "ebind m f = Inr y \<longleftrightarrow> (\<exists>x. m = Inr x \<and> f x = Inr y)"
  by (cases m) simp_all

lemma get_int_empty [simp]: "get_int rt Map.empty col d = Inr d"
  by (simp add: get_int_def dict_get_def)

section \<open>The ISS estimator: results\<close>

subsection \<open>The insufficient-data example\<close>

lemma sample_power_units_10:
  "get_int (sample_runtime 0) [''POWER_UNITS'' \<mapsto> Some ''10''] ''POWER_UNITS'' 0 = Inr 10"
  by code_simp

text \<open>
  Claim C6. For a carrier whose \<^verbatim>\<open>POWER_UNITS\<close> reads as 10, the estimator called without
  a basic row returns case D4 with score 66, bucket Optional and source Insufficient,
  for every runtime and every configuration.
\<close>

theorem estimate_iss_no_basic_power_units_10:
  assumes "get_int rt carrier ''POWER_UNITS'' 0 = Inr 10"
  shows "estimate_iss rt carrier None cfg =
     Inr \<lparr> iss_score = 66, bucket = OPTIONAL, source = INSUFFICIENT, group = None,
           iss_case = Some ''D4'', alerts = [], confidence = ''estimated'' \<rparr>"
  using assms
  by (simp add: estimate_iss_def insufficient_data_algorithm_def fleet_size_def
      insufficient_result_def Let_def)

theorem estimate_iss_no_basic_power_units_10_witness:
  "get_int (sample_runtime 0) [''POWER_UNITS'' \<mapsto> Some ''10''] ''POWER_UNITS'' 0 = Inr 10 \<and>
   estimate_iss (sample_runtime 0) [''POWER_UNITS'' \<mapsto> Some ''10''] None None =
     Inr \<lparr> iss_score = 66, bucket = OPTIONAL, source = INSUFFICIENT, group = None,
           iss_case = Some ''D4'', alerts = [], confidence = ''estimated'' \<rparr>"
  using estimate_iss_no_basic_power_units_10 [OF sample_power_units_10, of None]
    sample_power_units_10
  by simp

subsection \<open>The insufficient-data algorithm\<close>

text \<open>
  Every result of the insufficient-data algorithm on inspection counts that read as
  non-negative integers has source Insufficient, bucket Optional, no group, a case among
  D2 to D5 and a score from 50 to 69, provided the generator draws within its range.
\<close>

lemma insufficient_data_invariants:
  assumes v: "get_int rt basic_row ''VEHICLE_INSP_CT'' 0 = Inr v" and v0: "0 \<le> v"
      and d: "get_int rt basic_row ''DRIVER_INSP_CT'' 0 = Inr d" and d0: "0 \<le> d"
      and rnd: "55 \<le> randint rt sd 55 62 \<and> randint rt sd 55 62 \<le> 62"
      and res: "insufficient_data_algorithm rt carrier basic_row config sd = Inr r"
  shows "source r = INSUFFICIENT \<and> bucket r = OPTIONAL \<and> group r = None
     \<and> iss_case r \<in> {Some ''D2'', Some ''D3'', Some ''D4'', Some ''D5''}
     \<and> 50 \<le> iss_score r \<and> iss_score r \<le> 69
     \<and> (iss_case r = Some ''D2'' \<longrightarrow> iss_score r = 50)
     \<and> (iss_case r = Some ''D3'' \<longrightarrow> 55 \<le> iss_score r \<and> iss_score r \<le> 62)
     \<and> (iss_case r = Some ''D4'' \<longrightarrow> 63 \<le> iss_score r \<and> iss_score r \<le> 69)
     \<and> (iss_case r = Some ''D5'' \<longrightarrow> 53 \<le> iss_score r \<and> iss_score r \<le> 69)"
proof (cases "fleet_size rt carrier")
  case (Inl e)
  with res v d show ?thesis by (simp add: insufficient_data_algorithm_def)
next
  case (Inr p)
  with res v d v0 d0 rnd show ?thesis
    by (auto simp add: insufficient_data_algorithm_def insufficient_result_def Let_def
        split: if_splits)
qed

text \<open>
  Claim C9. The claim promises a result for every carrier. With inspection counts that
  read as 0 and 0 and a carrier whose \<^verbatim>\<open>POWER_UNITS\<close> cell is \<^verbatim>\<open>inf\<close>, the algorithm
  returns no result: \<^verbatim>\<open>get_int\<close> lets the \<^verbatim>\<open>OverflowError\<close> of \<^verbatim>\<open>int(float('inf'))\<close>
  through.
\<close>

theorem insufficient_data_algorithm_overflow:
  "get_int (sample_runtime 0) Map.empty ''VEHICLE_INSP_CT'' 0 = Inr 0 \<and>
   get_int (sample_runtime 0) Map.empty ''DRIVER_INSP_CT'' 0 = Inr 0 \<and>
   insufficient_data_algorithm (sample_runtime 0) [''POWER_UNITS'' \<mapsto> Some ''inf''] Map.empty
     default_config 0 = Inl OverflowError"
  by code_simp

subsection \<open>Bucket and score\<close>

text \<open>
  Claim C5. A basic row without percentiles whose \<^verbatim>\<open>VEHICLE_INSP_CT\<close> is \<^verbatim>\<open>-1\<close> takes the
  insufficient-data path to case D5 with score 47; the bucket returned is Optional,
  while the bucket of a score of 47 is Pass.
\<close>

theorem estimate_iss_negative_count_bucket:
  "estimate_iss (sample_runtime 0) Map.empty (Some [''VEHICLE_INSP_CT'' \<mapsto> Some ''-1'']) None =
     Inr \<lparr> iss_score = 47, bucket = OPTIONAL, source = INSUFFICIENT, group = None,
           iss_case = Some ''D5'', alerts = [], confidence = ''estimated'' \<rparr>
   \<and> bucket_of 47 = PASS"
  by code_simp

lemma insufficient_data_source:
  assumes "insufficient_data_algorithm rt carrier basic_row config sd = Inr r"
  shows "source r = INSUFFICIENT \<and> bucket r = OPTIONAL"
  using assms
  by (auto simp add: insufficient_data_algorithm_def insufficient_result_def Let_def ebind_eq_Inr
      split: if_splits)

text \<open>On the path of the safety algorithm the bucket is the bucket of the score.\<close>

lemma estimate_iss_safety_bucket:
  assumes "estimate_iss rt carrier basic_row cfg = Inr r" and "source r = SAFETY"
  shows "bucket r = bucket_of (iss_score r)"
proof (cases basic_row)
  case None
  with assms show ?thesis
    by (auto simp add: estimate_iss_def Let_def dest: insufficient_data_source)
next
  case (Some br)
  with assms show ?thesis
    by (auto simp add: estimate_iss_def Let_def dest: insufficient_data_source
        split: option.splits)
qed

subsection \<open>The seed of the generator\<close>

text \<open>
  Without a configured seed, and with a configured seed of 0, the seed is the built-in
  hash of the DOT number in this process.
\<close>

lemma rng_seed_hash:
  assumes "seed config = None \<or> seed config = Some 0"
  shows "rng_seed rt carrier config =
     str_hash rt (case dict_get carrier ''DOT_NUMBER'' (Some '''') of
                    None \<Rightarrow> ''None'' | Some s \<Rightarrow> s) mod 2 ^ 31"
  using assms by (auto simp add: rng_seed_def Let_def)

text \<open>
  Claim C8. Two runtimes that differ in nothing but the salt of the built-in string hash,
  as two Python processes do, give different ISS scores to the same carrier and basic
  row under the same (default) configuration.
\<close>

theorem estimate_iss_depends_on_process_hash:
  "estimate_iss (sample_runtime 0) [''DOT_NUMBER'' \<mapsto> Some ''12345'']
      (Some [''HOS_DRIV_MEASURE'' \<mapsto> Some ''50'']) None
   \<noteq> estimate_iss (sample_runtime 1) [''DOT_NUMBER'' \<mapsto> Some ''12345'']
      (Some [''HOS_DRIV_MEASURE'' \<mapsto> Some ''50'']) None"
  by code_simp

section \<open>Rounding\<close>

lemma round_half_even_ge: "of_int a \<le> y \<Longrightarrow> a \<le> round_half_even y"
proof -
  assume "of_int a \<le> y"
  then have "a \<le> \<lfloor>y\<rfloor>" by (simp add: le_floor_iff)
  then show ?thesis by (simp add: round_half_even_def Let_def)
qed

lemma round_half_even_le: "y \<le> of_int b \<Longrightarrow> round_half_even y \<le> b"
proof -
  assume yb: "y \<le> of_int b"
  then have fb: "\<lfloor>y\<rfloor> \<le> b" by (simp add: floor_le_iff)
  show ?thesis
  proof (cases "\<lfloor>y\<rfloor> = b")
    case True
    then have "of_int b \<le> y" using of_int_floor_le [of y] by simp
    with yb have "y = of_int b" by simp
    then show ?thesis by (simp add: round_half_even_def Let_def)
  next
    case False
    with fb have "\<lfloor>y\<rfloor> + 1 \<le> b" by simp
    with fb show ?thesis by (simp add: round_half_even_def Let_def)
  qed
qed

lemma round_half_even_of_int [simp]: "round_half_even (of_int k) = k"
  by (simp add: round_half_even_def Let_def)

lemma py_round_bounds:
  assumes "of_int a / 10 ^ n \<le> x" and "x \<le> of_int b / 10 ^ n"
  shows "of_int a / 10 ^ n \<le> py_round x n \<and> py_round x n \<le> of_int b / 10 ^ n"
proof -
  have p: "(0::rat) < 10 ^ n" by simp
  from assms(1) have "of_int a \<le> x * 10 ^ n" using p by (simp add: pos_divide_le_eq)
  then have l: "a \<le> round_half_even (x * 10 ^ n)" by (rule round_half_even_ge)
  from assms(2) have "x * 10 ^ n \<le> of_int b" using p by (simp add: pos_le_divide_eq)
  then have u: "round_half_even (x * 10 ^ n) \<le> b" by (rule round_half_even_le)
  have "(of_int a :: rat) \<le> of_int (round_half_even (x * 10 ^ n))" using l by (simp only: of_int_le_iff)
  moreover have "(of_int (round_half_even (x * 10 ^ n)) :: rat) \<le> of_int b" using u by (simp only: of_int_le_iff)
  ultimately show ?thesis using p by (simp add: py_round_def divide_le_cancel)
qed

lemma py_round_1_bounds: "0 \<le> x \<Longrightarrow> x \<le> 100 \<Longrightarrow> 0 \<le> py_round x 1 \<and> py_round x 1 \<le> 100"
  using py_round_bounds [of 0 1 x 1000] by simp

lemma py_round_2_bounds: "1 \<le> x \<Longrightarrow> x \<le> 500 \<Longrightarrow> 1 \<le> py_round x 2 \<and> py_round x 2 \<le> 500"
  using py_round_bounds [of 100 2 x 50000] by simp

lemma py_round_of_int [simp]: "py_round (of_int k) n = of_int k"
proof -
  have "(of_int k :: rat) * 10 ^ n = of_int (k * 10 ^ n)" by simp
  then have "round_half_even (of_int k * 10 ^ n) = k * 10 ^ n"
    by (simp only: round_half_even_of_int)
  then show ?thesis by (simp add: py_round_def)
qed

lemma py_round_Ints: "x \<in> \<int> \<Longrightarrow> py_round x n = x"
  by (auto elim!: Ints_cases)

section \<open>The scoring engine: results\<close>

subsection \<open>Component scores and the combined score\<close>

lemma experience_score_range:
  "calculate_experience_score rt carrier \<in> \<int> \<and> 0 \<le> calculate_experience_score rt carrier
   \<and> calculate_experience_score rt carrier \<le> 100"
  by (simp add: calculate_experience_score_def Let_def split: option.split)

lemma safety_step_range:
  "s \<in> \<int> \<Longrightarrow> safety_step rt basic cat s \<in> \<int> \<and> safety_step rt basic cat s \<le> s"
  by (simp add: safety_step_def Let_def)

lemma safety_loop_range:
  "s \<in> \<int> \<Longrightarrow> safety_loop rt basic cats s \<in> \<int> \<and> safety_loop rt basic cats s \<le> s"
proof (induction cats arbitrary: s)
  case Nil
  then show ?case by simp
next
  case (Cons c cats)
  from Cons.prems have st: "safety_step rt basic c s \<in> \<int> \<and> safety_step rt basic c s \<le> s"
    by (rule safety_step_range)
  from Cons.IH [of "safety_step rt basic c s"] st show ?case by auto
qed

lemma safety_score_range:
  "calculate_safety_score rt carrier basic_data \<in> \<int> \<and> 0 \<le> calculate_safety_score rt carrier basic_data
   \<and> calculate_safety_score rt carrier basic_data \<le> 100"
proof (cases basic_data)
  case Nil
  then show ?thesis by (simp add: calculate_safety_score_def)
next
  case (Cons basic rest)
  have "(100::rat) \<in> \<int>" by simp
  from safety_loop_range [OF this, of rt basic basic_categories] Cons show ?thesis
    by (simp add: calculate_safety_score_def max_def)
qed

lemma crash_deductions_range:
  "crash_deductions n t \<in> \<int> \<and> 0 \<le> crash_deductions n t \<and> crash_deductions n t \<le> 100"
proof (cases t)
  case (fields f i h)
  have a: "0 < f \<Longrightarrow> 0 \<le> min 50 (f * 25)" by simp
  have b: "0 < i \<Longrightarrow> 0 \<le> min 30 (i * 5)" by simp
  have c: "0 < h \<Longrightarrow> 0 \<le> min 20 (h * 10)" by simp
  have z: "\<And>x. (x::rat) \<in> \<int> \<Longrightarrow> max 0 x \<in> \<int>" by (simp add: max_def)
  show ?thesis using a b c unfolding fields crash_deductions_def Let_def
    apply (simp only: prod.case)
    apply (intro conjI)
      apply (rule z)
      apply (simp)
     apply simp
    apply (simp add: max_def min_def)
    done
qed

lemma crash_score_range:
  assumes "calculate_crash_score rt carrier crashes = Inr x"
  shows "x \<in> \<int> \<and> 0 \<le> x \<and> x \<le> 100"
  using assms crash_deductions_range
  by (auto simp add: calculate_crash_score_def ebind_eq_Inr split: if_splits)

lemma inspection_score_range:
  assumes "calculate_inspection_score rt carrier inspections violations = Inr x"
  shows "x \<in> \<int> \<and> 0 \<le> x \<and> x \<le> 100"
  using assms
  by (auto simp add: calculate_inspection_score_def Let_def ebind_eq_Inr split: if_splits)

lemma process_carrier_fields:
  assumes "process_carrier rt has_iss carrier data = Inr r"
  shows "\<exists>c i. calculate_crash_score rt carrier (rows_of (crashes_by_dot data) (carrier_dot carrier)) = Inr c
     \<and> calculate_inspection_score rt carrier (rows_of (inspections_by_dot data) (carrier_dot carrier))
          (rows_of (violations_by_dot data) (carrier_dot carrier)) = Inr i
     \<and> experience_score r = py_round (calculate_experience_score rt carrier) 1
     \<and> safety_score r = py_round (calculate_safety_score rt carrier (rows_of (basic_by_dot data) (carrier_dot carrier))) 1
     \<and> crash_score r = py_round c 1
     \<and> inspection_score r = py_round i 1
     \<and> combined_score r = py_round (weighted_sum (calculate_experience_score rt carrier)
           (calculate_safety_score rt carrier (rows_of (basic_by_dot data) (carrier_dot carrier))) c i) 1
     \<and> has_sufficient_mileage r = (100000 \<le> annual_mileage r)
     \<and> sr_iss_score r = map_option iss_score (iss_data rt has_iss carrier (rows_of (basic_by_dot data) (carrier_dot carrier)))
     \<and> sr_iss_bucket r = map_option bucket (iss_data rt has_iss carrier (rows_of (basic_by_dot data) (carrier_dot carrier)))
     \<and> sr_iss_source r = map_option source (iss_data rt has_iss carrier (rows_of (basic_by_dot data) (carrier_dot carrier)))
     \<and> rank r = None \<and> fred_score_grade r = None \<and> insurance_rating r = None"
  using assms
  unfolding process_carrier_def Let_def carrier_dot_def ebind_eq_Inr
  by (elim exE conjE) (auto)


lemma weighted_sum_range:
  assumes "0 \<le> e \<and> e \<le> 100" "0 \<le> s \<and> s \<le> 100" "0 \<le> c \<and> c \<le> 100" "0 \<le> i \<and> i \<le> 100"
  shows "0 \<le> weighted_sum e s c i \<and> weighted_sum e s c i \<le> 100"
  using assms by (simp add: weighted_sum_def)

text \<open>
  Claim C3. In every result of \<open>process_carrier\<close> each of the four component scores
  lies between 0 and 100, the combined score is the weighted sum of the four components
  with the weights 0.15, 0.35, 0.30 and 0.20 rounded to one decimal, and the combined
  score lies between 0 and 100. The weighted sum is taken exactly; Python computes it in
  binary floating point, which may differ from it in the last place.
\<close>

theorem process_carrier_scores:
  assumes "process_carrier rt has_iss carrier data = Inr r"
  shows "0 \<le> experience_score r \<and> experience_score r \<le> 100
     \<and> 0 \<le> safety_score r \<and> safety_score r \<le> 100
     \<and> 0 \<le> crash_score r \<and> crash_score r \<le> 100
     \<and> 0 \<le> inspection_score r \<and> inspection_score r \<le> 100
     \<and> combined_score r =
         py_round (experience_score r * (15 / 100) + safety_score r * (35 / 100)
                   + crash_score r * (30 / 100) + inspection_score r * (20 / 100)) 1
     \<and> 0 \<le> combined_score r \<and> combined_score r \<le> 100"
proof -
  let ?e = "calculate_experience_score rt carrier"
  let ?s = "calculate_safety_score rt carrier (rows_of (basic_by_dot data) (carrier_dot carrier))"
  from process_carrier_fields [OF assms] obtain c i where
    c: "calculate_crash_score rt carrier (rows_of (crashes_by_dot data) (carrier_dot carrier)) = Inr c"
    and i: "calculate_inspection_score rt carrier (rows_of (inspections_by_dot data) (carrier_dot carrier))
          (rows_of (violations_by_dot data) (carrier_dot carrier)) = Inr i"
    and fe: "experience_score r = py_round ?e 1"
    and fs: "safety_score r = py_round ?s 1"
    and fc: "crash_score r = py_round c 1"
    and fi: "inspection_score r = py_round i 1"
    and fw: "combined_score r = py_round (weighted_sum ?e ?s c i) 1"
    by blast
  have re: "?e \<in> \<int> \<and> 0 \<le> ?e \<and> ?e \<le> 100" by (rule experience_score_range)
  have rs: "?s \<in> \<int> \<and> 0 \<le> ?s \<and> ?s \<le> 100" by (rule safety_score_range)
  have rc: "c \<in> \<int> \<and> 0 \<le> c \<and> c \<le> 100" using c by (rule crash_score_range)
  have ri: "i \<in> \<int> \<and> 0 \<le> i \<and> i \<le> 100" using i by (rule inspection_score_range)
  have ee: "experience_score r = ?e" using fe re by (simp add: py_round_Ints)
  have es: "safety_score r = ?s" using fs rs by (simp add: py_round_Ints)
  have ec: "crash_score r = c" using fc rc by (simp add: py_round_Ints)
  have ei: "inspection_score r = i" using fi ri by (simp add: py_round_Ints)
  have w: "0 \<le> weighted_sum ?e ?s c i \<and> weighted_sum ?e ?s c i \<le> 100"
    using re rs rc ri by (intro weighted_sum_range) simp_all
  have wr: "0 \<le> combined_score r \<and> combined_score r \<le> 100"
    using w fw py_round_1_bounds by simp
  have eq: "combined_score r =
         py_round (experience_score r * (15 / 100) + safety_score r * (35 / 100)
                   + crash_score r * (30 / 100) + inspection_score r * (20 / 100)) 1"
    using fw ee es ec ei by (simp add: weighted_sum_def)
  show ?thesis using re rs rc ri ee es ec ei wr eq by simp
qed


lemma sample_no_basic_rows:
  "rows_of (basic_by_dot sample_dataset) (carrier_dot sample_carrier_no_basic) = []"
  by code_simp

lemma sample_process_no_basic:
  "process_carrier (sample_runtime 0) True sample_carrier_no_basic sample_dataset
     = Inr sample_scored_no_basic"
  by code_simp

text \<open>
  The sample carrier 12345, step by step: an alert and a measure of 80 take 15 and 10
  from the safety score, a fatality takes 25 from the crash score, an out-of-service
  rate of 50 percent takes 30 from the inspection score, and the weighted sum 77.75
  rounds to 77.8.
\<close>

lemma safe_int_get0_absent: "c k = None \<Longrightarrow> safe_int_get0 rt c k = Inr 0"
  by (simp add: safe_int_get0_def)

lemma sample_dot: "carrier_dot sample_carrier = ''12345''"
  by code_simp

lemma sample_experience: "calculate_experience_score (sample_runtime 0) sample_carrier = 100"
  by code_simp

lemma sample_safety:
  "calculate_safety_score (sample_runtime 0) sample_carrier
     (rows_of (basic_by_dot sample_dataset) ''12345'') = 75"
  by code_simp

lemma sample_crash:
  "calculate_crash_score (sample_runtime 0) sample_carrier
     (rows_of (crashes_by_dot sample_dataset) ''12345'') = Inr 75"
  by code_simp

lemma sample_inspection:
  "calculate_inspection_score (sample_runtime 0) sample_carrier
     (rows_of (inspections_by_dot sample_dataset) ''12345'')
     (rows_of (violations_by_dot sample_dataset) ''12345'') = Inr 70"
  by code_simp

lemma sample_iss:
  "iss_data (sample_runtime 0) True sample_carrier
     (rows_of (basic_by_dot sample_dataset) ''12345'') =
   Some \<lparr> iss_score = 83, bucket = INSPECT, source = SAFETY, group = Some 5, iss_case = None,
          alerts = [(''UNSAFE'', False), (''HOS'', True), (''DRIVER_FIT'', False),
                    (''CSAA'', False), (''VEH_MAINT'', False), (''HM'', False),
                    (''CRASH'', False)],
          confidence = ''estimated'' \<rparr>"
  by code_simp

lemma sample_counts:
  "length (rows_of (crashes_by_dot sample_dataset) ''12345'') = 1"
  "length (rows_of (inspections_by_dot sample_dataset) ''12345'') = 2"
  "length (rows_of (violations_by_dot sample_dataset) ''12345'') = 0"
  by (simp_all add: rows_of_def sample_dataset_def)

lemma sample_power_units: "safe_int_get0 (sample_runtime 0) sample_carrier ''POWER_UNITS'' = Inr 10"
  by code_simp

lemma sample_cells:
  "safe_int_get0 (sample_runtime 0) sample_carrier ''MCS150_MILEAGE'' = Inr 0"
  "safe_int_get0 (sample_runtime 0) sample_carrier ''TOT_MILEAGE'' = Inr 0"
  "safe_int_get0 (sample_runtime 0) sample_carrier ''OWNTRUCK'' = Inr 0"
  "safe_int_get0 (sample_runtime 0) sample_carrier ''OWNTRACT'' = Inr 0"
  "safe_int_get0 (sample_runtime 0) sample_carrier ''OWNTRAIL'' = Inr 0"
  "safe_int_get0 (sample_runtime 0) sample_carrier ''TRMTRUCK'' = Inr 0"
  "safe_int_get0 (sample_runtime 0) sample_carrier ''TRMTRACT'' = Inr 0"
  "safe_int_get0 (sample_runtime 0) sample_carrier ''TRMTRAIL'' = Inr 0"
  "safe_int_get0 (sample_runtime 0) sample_carrier ''TRPTRUCK'' = Inr 0"
  "safe_int_get0 (sample_runtime 0) sample_carrier ''TRPTRACT'' = Inr 0"
  "safe_int_get0 (sample_runtime 0) sample_carrier ''TRPTRAIL'' = Inr 0"
  "safe_int_get0 (sample_runtime 0) sample_carrier ''DRIVERS'' = Inr 0"
  "safe_int_get0 (sample_runtime 0) sample_carrier ''TOTAL_DRIVERS'' = Inr 0"
  "safe_int_get0 (sample_runtime 0) sample_carrier ''TOTAL_CDL'' = Inr 0"
  by (simp_all add: safe_int_get0_absent sample_carrier_def)

lemma sample_rounds:
  "py_round 100 1 = 100" "py_round 75 1 = 75" "py_round 70 1 = 70"
  using py_round_of_int [of 100 1] py_round_of_int [of 75 1] py_round_of_int [of 70 1]
  by simp_all

lemma sample_weighted: "py_round (weighted_sum 100 75 75 70) 1 = 778 / 10"
  by code_simp

lemma sample_process_carrier:
  "process_carrier (sample_runtime 0) True sample_carrier sample_dataset = Inr sample_scored"
  unfolding process_carrier_def Let_def sample_dot sample_experience sample_safety sample_crash
    sample_inspection sample_iss sample_counts sample_cells sample_power_units sample_rounds
    sample_weighted ebind_Inr
  by (simp add: sample_scored_def)

theorem process_carrier_scores_witness:
  "process_carrier (sample_runtime 0) True sample_carrier sample_dataset = Inr sample_scored
   \<and> experience_score sample_scored = 100 \<and> safety_score sample_scored = 75
   \<and> crash_score sample_scored = 75 \<and> inspection_score sample_scored = 70
   \<and> combined_score sample_scored = 778 / 10
   \<and> 0 \<le> experience_score sample_scored \<and> experience_score sample_scored \<le> 100
   \<and> 0 \<le> safety_score sample_scored \<and> safety_score sample_scored \<le> 100
   \<and> 0 \<le> crash_score sample_scored \<and> crash_score sample_scored \<le> 100
   \<and> 0 \<le> inspection_score sample_scored \<and> inspection_score sample_scored \<le> 100
   \<and> combined_score sample_scored =
         py_round (experience_score sample_scored * (15 / 100)
                   + safety_score sample_scored * (35 / 100)
                   + crash_score sample_scored * (30 / 100)
                   + inspection_score sample_scored * (20 / 100)) 1
   \<and> 0 \<le> combined_score sample_scored \<and> combined_score sample_scored \<le> 100"
proof -
  have v: "experience_score sample_scored = 100 \<and> safety_score sample_scored = 75
   \<and> crash_score sample_scored = 75 \<and> inspection_score sample_scored = 70
   \<and> combined_score sample_scored = 778 / 10"
    by (simp add: sample_scored_def)
  from process_carrier_scores [OF sample_process_carrier] sample_process_carrier v
  show ?thesis by blast
qed

subsection \<open>A carrier without a basic record\<close>

lemma estimate_iss_no_basic_source:
  assumes "estimate_iss rt carrier None cfg = Inr e"
  shows "source e = INSUFFICIENT \<and> bucket e = OPTIONAL"
  using assms by (auto simp add: estimate_iss_def Let_def dest: insufficient_data_source)

text \<open>
  Claim C10. When no basic record is joined to the carrier, the ISS entries of the result
  of \<open>process_carrier\<close> are empty, whether or not the estimator was imported: the
  estimator is not called. Called on its own without a basic row, the estimator takes
  the insufficient-data path, and every result it returns has source Insufficient.
\<close>

theorem process_carrier_no_basic_record:
  assumes "rows_of (basic_by_dot data) (carrier_dot carrier) = []"
      and "process_carrier rt has_iss carrier data = Inr r"
  shows "sr_iss_score r = None \<and> sr_iss_bucket r = None \<and> sr_iss_source r = None
     \<and> (\<forall>e. estimate_iss rt carrier None cfg = Inr e \<longrightarrow> source e = INSUFFICIENT)"
proof -
  have "iss_data rt has_iss carrier [] = None" by (simp add: iss_data_def)
  with process_carrier_fields [OF assms(2)] assms(1)
  have "sr_iss_score r = None \<and> sr_iss_bucket r = None \<and> sr_iss_source r = None" by auto
  then show ?thesis using estimate_iss_no_basic_source by blast
qed

lemma sample_estimate_no_basic:
  "estimate_iss (sample_runtime 0) sample_carrier_no_basic None None =
     Inr \<lparr> iss_score = 66, bucket = OPTIONAL, source = INSUFFICIENT, group = None,
           iss_case = Some ''D4'', alerts = [], confidence = ''estimated'' \<rparr>"
  by code_simp

theorem process_carrier_no_basic_record_witness:
  "rows_of (basic_by_dot sample_dataset) (carrier_dot sample_carrier_no_basic) = []
   \<and> process_carrier (sample_runtime 0) True sample_carrier_no_basic sample_dataset
       = Inr sample_scored_no_basic
   \<and> sr_iss_score sample_scored_no_basic = None \<and> sr_iss_bucket sample_scored_no_basic = None
   \<and> sr_iss_source sample_scored_no_basic = None
   \<and> estimate_iss (sample_runtime 0) sample_carrier_no_basic None None =
       Inr \<lparr> iss_score = 66, bucket = OPTIONAL, source = INSUFFICIENT, group = None,
             iss_case = Some ''D4'', alerts = [], confidence = ''estimated'' \<rparr>
   \<and> source \<lparr> iss_score = 66, bucket = OPTIONAL, source = INSUFFICIENT, group = None,
             iss_case = Some ''D4'', alerts = [], confidence = ''estimated'' \<rparr> = INSUFFICIENT"
  using process_carrier_no_basic_record [OF sample_no_basic_rows sample_process_no_basic, of None]
    sample_no_basic_rows sample_process_no_basic sample_estimate_no_basic
  by simp

section \<open>The passes over the population: results\<close>

subsection \<open>Updates at distinct positions\<close>

lemma length_apply_at [simp]: "length (apply_at f i as rs) = length rs"
  by (induction as arbitrary: i rs) simp_all

lemma apply_at_other: "a \<notin> set as \<Longrightarrow> apply_at f i as rs ! a = rs ! a"
  by (induction as arbitrary: i rs) auto

lemma apply_at_nth:
  assumes "distinct as" and "\<forall>a\<in>set as. a < length rs" and "j < length as"
  shows "apply_at f i as rs ! (as ! j) = f (i + j) (rs ! (as ! j))"
  using assms
proof (induction as arbitrary: i rs j)
  case Nil
  then show ?case by simp
next
  case (Cons a rest)
  show ?case
  proof (cases j)
    case 0
    with Cons.prems show ?thesis by (simp add: apply_at_other)
  next
    case (Suc k)
    with Cons.prems have k: "k < length rest" and ne: "rest ! k \<noteq> a" by auto
    from Cons.prems have d: "distinct rest" and b: "\<forall>x\<in>set rest. x < length (rs[a := f i (rs ! a)])"
      by auto
    from Cons.IH [OF d b k, of "i + 1"] ne Suc show ?thesis by simp
  qed
qed

lemma apply_at_mem:
  assumes "distinct as" and "\<forall>a\<in>set as. a < length rs" and "a \<in> set as"
  shows "\<exists>j<length as. as ! j = a \<and> apply_at f i as rs ! a = f (i + j) (rs ! a)"
proof -
  from assms(3) obtain j where j: "j < length as" "as ! j = a" by (auto simp add: in_set_conv_nth)
  with apply_at_nth [OF assms(1) assms(2) j(1), of f i] show ?thesis by auto
qed

subsection \<open>The grading loop\<close>

lemma eligible_indices_props:
  "distinct (eligible_indices rs)" "\<forall>a\<in>set (eligible_indices rs). a < length rs"
  "set (eligible_indices rs) = {i. i < length rs \<and> has_sufficient_mileage (rs ! i)}"
  by (auto simp add: eligible_indices_def)

lemma eligible_indices_empty:
  assumes "\<forall>r\<in>set rs. \<not> has_sufficient_mileage r"
  shows "eligible_indices rs = []"
  using assms by (auto simp add: eligible_indices_def filter_empty_conv)

lemma grade_loop_apply_at:
  assumes "as = [] \<or> n \<noteq> 0"
  shows "\<exists>counts. grade_loop n i as (rs, cnt) = Inr (apply_at (graded n) i as rs, counts)"
  using assms
proof (induction as arbitrary: i rs cnt)
  case Nil
  then show ?case by simp
next
  case (Cons a rest)
  then have n: "n \<noteq> 0" by simp
  then have ih: "\<And>i rs cnt. \<exists>counts. grade_loop n i rest (rs, cnt) = Inr (apply_at (graded n) i rest rs, counts)"
    using Cons.IH by blast
  show ?case
  proof (cases "first_grade (of_nat i / of_nat n) grade_thresholds")
    case None
    then have "graded n i (rs ! a) = (rs ! a)\<lparr>rank := Some (i + 1)\<rparr>"
      by (simp add: graded_def)
    with None n ih [of "i + 1" "rs[a := (rs ! a)\<lparr>rank := Some (i + 1)\<rparr>]" cnt]
    show ?thesis by (simp add: py_div_def)
  next
    case (Some g)
    then have "graded n i (rs ! a) = (rs ! a)\<lparr>rank := Some (i + 1), fred_score_grade := Some g\<rparr>"
      by (simp add: graded_def)
    with Some n ih [of "i + 1" "rs[a := (rs ! a)\<lparr>rank := Some (i + 1), fred_score_grade := Some g\<rparr>]"
        "cnt(g := cnt g + 1)"]
    show ?thesis by (simp add: py_div_def)
  qed
qed

lemma grade_share_returns: "\<exists>q. grade_share n c = Inr q"
  by (simp add: grade_share_def py_div_def)

lemma grade_distribution_returns: "\<exists>ls. grade_distribution n cnt ts = Inr ls"
proof (induction ts)
  case Nil
  then show ?case by simp
next
  case (Cons t ts)
  obtain th g where t: "t = (th, g)" by (cases t)
  from grade_share_returns [of n "cnt g"] obtain q where q: "grade_share n (cnt g) = Inr q" ..
  from Cons obtain ls where "grade_distribution n cnt ts = Inr ls" ..
  with t q show ?case by simp
qed

lemma assign_fred_grades_apply_at:
  "assign_fred_grades rs =
     Inr (apply_at (graded (length (eligible_indices rs))) 0
            (sort_key (\<lambda>i. - combined_score (rs ! i)) (eligible_indices rs)) rs)"
proof -
  let ?es = "sort_key (\<lambda>i. - combined_score (rs ! i)) (eligible_indices rs)"
  have len: "length ?es = length (eligible_indices rs)" by simp
  have "?es = [] \<or> length ?es \<noteq> 0" by (cases "?es") simp_all
  from grade_loop_apply_at [OF this, of 0 rs "\<lambda>g. 0"] obtain counts where
    g: "grade_loop (length ?es) 0 ?es (rs, \<lambda>g. 0) = Inr (apply_at (graded (length ?es)) 0 ?es rs, counts)" ..
  from grade_distribution_returns [of "length ?es" counts grade_thresholds] obtain ls where
    d: "grade_distribution (length ?es) counts grade_thresholds = Inr ls" ..
  show ?thesis unfolding assign_fred_grades_def Let_def using g d len by simp
qed

text \<open>
  The results that \<open>process_each\<close> hands to the two passes: the eligibility flag says
  that the mileage is at least 100000, and rank, grade and insurance rating are empty.
\<close>

lemma process_each_fresh:
  assumes "process_each rt has_iss carriers data = Inr rs"
  shows "\<forall>r\<in>set rs. has_sufficient_mileage r = (100000 \<le> annual_mileage r)
           \<and> rank r = None \<and> fred_score_grade r = None \<and> insurance_rating r = None"
  using assms
proof (induction carriers arbitrary: rs)
  case Nil
  then show ?case by simp
next
  case (Cons c cs)
  from Cons.prems obtain r rest where r: "process_carrier rt has_iss c data = Inr r"
    and rest: "process_each rt has_iss cs data = Inr rest" and rs: "rs = r # rest"
    by (auto split: sum.splits)
  from process_carrier_fields [OF r] Cons.IH [OF rest] rs show ?case by auto
qed

subsection \<open>No eligible carrier\<close>

text \<open>
  Claim C7. When no carrier reaches a mileage of 100000, the insurance normalizer and the
  grade assigner both return without an error and leave the results as they are; neither
  the division by the total mileage nor a division by the number of eligible carriers is
  evaluated with a zero divisor.
\<close>

theorem no_eligible_carriers:
  assumes "\<forall>r\<in>set results. has_sufficient_mileage r = (100000 \<le> annual_mileage r)"
      and "\<forall>r\<in>set results. annual_mileage r < 100000"
  shows "calculate_insurance_ratings results = Inr results
     \<and> assign_fred_grades results = Inr results"
proof -
  from assms have "\<forall>r\<in>set results. \<not> has_sufficient_mileage r" by auto
  then have e: "eligible_indices results = []" by (rule eligible_indices_empty)
  have a: "calculate_insurance_ratings results = Inr results"
    by (simp add: calculate_insurance_ratings_def e)
  have b: "assign_fred_grades results = Inr results"
    by (simp add: assign_fred_grades_apply_at e)
  from a b show ?thesis ..
qed

theorem no_eligible_carriers_witness:
  "map annual_mileage sample_small_fleet = [20000, 50000, 99999]
   \<and> map has_sufficient_mileage sample_small_fleet = [False, False, False]
   \<and> calculate_insurance_ratings sample_small_fleet = Inr sample_small_fleet
   \<and> assign_fred_grades sample_small_fleet = Inr sample_small_fleet"
proof -
  have h1: "\<forall>r\<in>set sample_small_fleet. has_sufficient_mileage r = (100000 \<le> annual_mileage r)"
    by (simp add: sample_small_fleet_def sample_result_def)
  have h2: "\<forall>r\<in>set sample_small_fleet. annual_mileage r < 100000"
    by (simp add: sample_small_fleet_def sample_result_def)
  have m: "map annual_mileage sample_small_fleet = [20000, 50000, 99999]"
    by (simp add: sample_small_fleet_def sample_result_def)
  have f: "map has_sufficient_mileage sample_small_fleet = [False, False, False]"
    by (simp add: sample_small_fleet_def sample_result_def)
  from no_eligible_carriers [OF h1 h2] m f show ?thesis by blast
qed

subsection \<open>The number of carriers graded A+\<close>

lemma first_grade_a_plus: "first_grade p grade_thresholds = Some ''A+'' \<longleftrightarrow> p \<le> 3 / 100"
  by (simp add: grade_thresholds_def)

lemma first_grade_none: "first_grade p grade_thresholds = None \<longleftrightarrow> 1 < p"
  by (auto simp add: grade_thresholds_def)

lemma graded_a_plus:
  assumes "i < n"
  shows "fred_score_grade (graded n i r) = Some ''A+'' \<longleftrightarrow> 100 * i \<le> 3 * n"
proof -
  let ?p = "(of_nat i :: rat) / of_nat n"
  from assms have n: "(0::rat) < of_nat n" by simp
  from assms have "?p < 1" using n by (simp add: divide_less_eq)
  then obtain g where g: "first_grade ?p grade_thresholds = Some g"
    using first_grade_none [of ?p] by (cases "first_grade ?p grade_thresholds") auto
  have "?p \<le> 3 / 100 \<longleftrightarrow> (of_nat (100 * i) :: rat) \<le> of_nat (3 * n)"
    using n by (simp add: divide_le_eq mult.commute)
  also have "\<dots> \<longleftrightarrow> 100 * i \<le> 3 * n" by (simp only: of_nat_le_iff)
  finally have p: "?p \<le> 3 / 100 \<longleftrightarrow> 100 * i \<le> 3 * n" .
  from g have "fred_score_grade (graded n i r) = Some g" by (simp add: graded_def)
  with g first_grade_a_plus [of ?p] p show ?thesis by auto
qed

lemma length_filter_distinct:
  assumes "distinct xs" "distinct ys" "set xs = set ys"
  shows "length (filter P xs) = length (filter P ys)"
proof -
  have "length (filter P xs) = card (set (filter P xs))"
    by (rule distinct_card [symmetric]) (simp add: assms(1))
  also have "\<dots> = card (set (filter P ys))" using assms(3) by simp
  also have "\<dots> = length (filter P ys)"
    by (rule distinct_card) (simp add: assms(2))
  finally show ?thesis .
qed

lemma a_plus_count_eq:
  "a_plus_count rs =
     Inr (card {j. j < length (eligible_indices rs) \<and> 100 * j \<le> 3 * length (eligible_indices rs)})"
proof -
  let ?el = "eligible_indices rs"
  let ?n = "length ?el"
  let ?es = "sort_key (\<lambda>i. - combined_score (rs ! i)) ?el"
  let ?rs' = "apply_at (graded ?n) 0 ?es rs"
  let ?P = "\<lambda>i. fred_score_grade (?rs' ! i) = Some ''A+''"
  have d: "distinct ?es" and b: "\<forall>a\<in>set ?es. a < length rs" and len: "length ?es = ?n"
    using eligible_indices_props(1,2) [of rs] by simp_all
  have "length (filter ?P ?el) = length (filter ?P ?es)"
    by (rule length_filter_distinct) (simp_all add: eligible_indices_props(1))
  also have "\<dots> = card {j. j < length ?es \<and> ?P (?es ! j)}"
    by (rule length_filter_conv_card)
  also have "{j. j < length ?es \<and> ?P (?es ! j)} = {j. j < ?n \<and> 100 * j \<le> 3 * ?n}"
  proof -
    have "?P (?es ! j) \<longleftrightarrow> 100 * j \<le> 3 * ?n" if j: "j < ?n" for j
    proof -
      from j len have "j < length ?es" by simp
      from apply_at_nth [OF d b this, of "graded ?n" 0]
      have "?rs' ! (?es ! j) = graded ?n j (rs ! (?es ! j))" by simp
      with graded_a_plus [OF j] show ?thesis by simp
    qed
    with len show ?thesis by auto
  qed
  finally have "length (filter ?P ?el) = card {j. j < ?n \<and> 100 * j \<le> 3 * ?n}" .
  then show ?thesis by (simp add: a_plus_count_def assign_fred_grades_apply_at)
qed

lemma four_of_hundred: "card {j::nat. j < 100 \<and> 100 * j \<le> 3 * 100} = 4"
proof -
  have "{j::nat. j < 100 \<and> 100 * j \<le> 3 * 100} = {..<4}" by auto
  then show ?thesis by simp
qed

text \<open>The descending sort: strictly falling scores, and the number of higher scores.\<close>

lemma sort_key_desc_distinct:
  assumes "distinct (map f xs)"
  shows "distinct (sort_key (\<lambda>i. - f i) xs) \<and> inj_on f (set (sort_key (\<lambda>i. - f i) xs))"
  using assms by (simp add: distinct_map)

lemma sort_key_desc_nth:
  fixes f :: "nat \<Rightarrow> rat"
  assumes dist: "distinct (map f xs)" and qp: "q < p" and p: "p < length (sort_key (\<lambda>i. - f i) xs)"
  shows "f (sort_key (\<lambda>i. - f i) xs ! p) < f (sort_key (\<lambda>i. - f i) xs ! q)"
proof -
  let ?es = "sort_key (\<lambda>i. - f i) xs"
  have s: "sorted (map (\<lambda>i. - f i) ?es)" by (rule sorted_sort_key)
  from qp p have q: "q < length ?es" by simp
  from sorted_nth_mono [OF s, of q p] qp p q have le: "f (?es ! p) \<le> f (?es ! q)" by simp
  from sort_key_desc_distinct [OF dist] have d: "distinct ?es" and inj: "inj_on f (set ?es)"
    by simp_all
  from d qp p q have "?es ! p \<noteq> ?es ! q" by (simp add: nth_eq_iff_index_eq)
  moreover have "?es ! p \<in> set ?es" "?es ! q \<in> set ?es" using p q by (simp_all del: set_sort)
  ultimately have "f (?es ! p) \<noteq> f (?es ! q)" using inj by (auto simp add: inj_on_def)
  with le show ?thesis by simp
qed

lemma higher_count:
  fixes f :: "nat \<Rightarrow> rat"
  assumes dist: "distinct (map f xs)" and p: "p < length (sort_key (\<lambda>i. - f i) xs)"
  shows "card {j \<in> set xs. f (sort_key (\<lambda>i. - f i) xs ! p) < f j} = p"
proof -
  let ?es = "sort_key (\<lambda>i. - f i) xs"
  from sort_key_desc_distinct [OF dist] have d: "distinct ?es" by simp
  have "{j \<in> set xs. f (?es ! p) < f j} = (\<lambda>q. ?es ! q) ` {..<p}"
  proof (intro set_eqI iffI)
    fix j assume "j \<in> {j \<in> set xs. f (?es ! p) < f j}"
    then have jm: "j \<in> set ?es" and lt: "f (?es ! p) < f j" by simp_all
    from jm obtain q where q: "q < length ?es" "?es ! q = j"
      by (auto simp add: in_set_conv_nth simp del: set_sort)
    have "q < p"
    proof (rule ccontr)
      assume "\<not> q < p"
      then have "q = p \<or> p < q" by auto
      then show False
      proof
        assume "q = p"
        with q lt show False by simp
      next
        assume "p < q"
        from sort_key_desc_nth [OF dist this q(1)] q lt show False by simp
      qed
    qed
    with q show "j \<in> (\<lambda>q. ?es ! q) ` {..<p}" by auto
  next
    fix j assume "j \<in> (\<lambda>q. ?es ! q) ` {..<p}"
    then obtain q where q: "q < p" "j = ?es ! q" by auto
    with p have "q < length ?es" by simp
    then have "?es ! q \<in> set ?es" by (simp del: set_sort)
    then have "j \<in> set xs" using q by simp
    moreover from sort_key_desc_nth [OF dist q(1) p] q have "f (?es ! p) < f j" by simp
    ultimately show "j \<in> {j \<in> set xs. f (?es ! p) < f j}" by simp
  qed
  moreover have "inj_on (\<lambda>q. ?es ! q) {..<p}"
    using d p by (auto simp add: inj_on_def nth_eq_iff_index_eq)
  ultimately show ?thesis by (simp add: card_image)
qed

lemma graded_rank: "rank (graded n i r) = Some (i + 1)"
  by (simp add: graded_def split: option.split)

text \<open>
  Claim C1, as amended. For every population with 100 eligible carriers of pairwise
  distinct combined scores, the grade assigner gives the grade A+ to exactly 4 of them:
  an eligible carrier holds A+ if and only if fewer than 4 eligible carriers have a
  higher score, and its rank is one more than the number of eligible carriers with a
  higher score. These are the sorted positions 0, 1, 2 and 3, whose percentiles 0, 0.01,
  0.02 and 0.03 do not exceed the threshold 0.03.
\<close>

theorem a_plus_count_of_100:
  assumes len: "length (eligible_indices results) = 100"
      and dist: "distinct (map (\<lambda>i. combined_score (results ! i)) (eligible_indices results))"
  shows "a_plus_count results = Inr 4
     \<and> (\<exists>graded_results. assign_fred_grades results = Inr graded_results
          \<and> (\<forall>i\<in>set (eligible_indices results).
                (fred_score_grade (graded_results ! i) = Some ''A+'')
                  = (card {j \<in> set (eligible_indices results).
                            combined_score (results ! i) < combined_score (results ! j)} < 4)
                \<and> rank (graded_results ! i)
                  = Some (card {j \<in> set (eligible_indices results).
                                 combined_score (results ! i) < combined_score (results ! j)} + 1)))"
proof -
  let ?el = "eligible_indices results"
  let ?f = "\<lambda>i. combined_score (results ! i)"
  let ?es = "sort_key (\<lambda>i. - ?f i) ?el"
  let ?rs' = "apply_at (graded (length ?el)) 0 ?es results"
  have cnt: "a_plus_count results = Inr 4"
    using a_plus_count_eq [of results] len four_of_hundred by simp
  have eq: "assign_fred_grades results = Inr ?rs'" by (rule assign_fred_grades_apply_at)
  have d: "distinct ?es" and b: "\<forall>a\<in>set ?es. a < length results"
    using eligible_indices_props(1,2) [of results] by simp_all
  have each: "(fred_score_grade (?rs' ! i) = Some ''A+'')
                = (card {j \<in> set ?el. ?f i < ?f j} < 4)
              \<and> rank (?rs' ! i) = Some (card {j \<in> set ?el. ?f i < ?f j} + 1)"
    if i: "i \<in> set ?el" for i
  proof -
    from i have "i \<in> set ?es" by simp
    then obtain p where p: "p < length ?es" "?es ! p = i"
      by (auto simp add: in_set_conv_nth simp del: set_sort)
    from p len have p100: "p < 100" by simp
    from apply_at_nth [OF d b p(1), of "graded (length ?el)" 0] p
    have g: "?rs' ! i = graded 100 p (results ! i)" using len by simp
    from higher_count [OF dist p(1)] p have c: "card {j \<in> set ?el. ?f i < ?f j} = p" by simp
    from graded_a_plus [OF p100, of "results ! i"]
    have "(fred_score_grade (graded 100 p (results ! i)) = Some ''A+'') = (p < 4)" by auto
    with g c graded_rank [of 100 p "results ! i"] show ?thesis by simp
  qed
  from cnt eq each show ?thesis by blast
qed

lemma eligible_indices_all:
  assumes "\<forall>r\<in>set rs. has_sufficient_mileage r"
  shows "eligible_indices rs = [0..<length rs]"
  using assms by (simp add: eligible_indices_def)

lemma sample_population_eligible: "length (eligible_indices sample_population) = 100"
proof -
  have "\<forall>r\<in>set sample_population. has_sufficient_mileage r"
    by (auto simp add: sample_population_def sample_result_def)
  then have "eligible_indices sample_population = [0..<length sample_population]"
    by (rule eligible_indices_all)
  then show ?thesis by (simp add: sample_population_def)
qed

lemma sample_population_distinct: "distinct (map combined_score sample_population)"
  by (simp add: sample_population_def sample_result_def distinct_map comp_def inj_on_def)

lemma sample_population_indices: "eligible_indices sample_population = [0..<100]"
proof -
  have "\<forall>r\<in>set sample_population. has_sufficient_mileage r"
    by (auto simp add: sample_population_def sample_result_def)
  then have "eligible_indices sample_population = [0..<length sample_population]"
    by (rule eligible_indices_all)
  then show ?thesis by (simp add: sample_population_def)
qed

lemma sample_population_score:
  "i < 100 \<Longrightarrow> combined_score (sample_population ! i) = of_nat i / 10"
  by (simp add: sample_population_def sample_result_def)

lemma sample_population_distinct_scores:
  "distinct (map (\<lambda>i. combined_score (sample_population ! i)) (eligible_indices sample_population))"
proof -
  have e: "map (\<lambda>i. combined_score (sample_population ! i)) [0..<100]
        = map (\<lambda>i. of_nat i / 10) [0..<100]"
    by (rule map_cong) (simp_all add: sample_population_score)
  have d: "distinct (map (\<lambda>i::nat. (of_nat i :: rat) / 10) [0..<100])"
    by (simp add: distinct_map inj_on_def)
  show ?thesis unfolding sample_population_indices e by (rule d)
qed

lemma sample_population_higher:
  assumes "i < 100"
  shows "card {j \<in> set (eligible_indices sample_population).
               combined_score (sample_population ! i) < combined_score (sample_population ! j)}
         = 99 - i"
proof -
  have "{j \<in> set (eligible_indices sample_population).
               combined_score (sample_population ! i) < combined_score (sample_population ! j)}
        = {i + 1..<100}"
    using assms by (auto simp add: sample_population_indices sample_population_score)
  then show ?thesis by simp
qed

theorem a_plus_count_of_100_witness:
  "length (eligible_indices sample_population) = 100
   \<and> distinct (map (\<lambda>i. combined_score (sample_population ! i))
                 (eligible_indices sample_population))
   \<and> a_plus_count sample_population = Inr 4
   \<and> fred_score_grade (projr (assign_fred_grades sample_population) ! 99) = Some ''A+''
   \<and> fred_score_grade (projr (assign_fred_grades sample_population) ! 96) = Some ''A+''
   \<and> fred_score_grade (projr (assign_fred_grades sample_population) ! 95) \<noteq> Some ''A+''
   \<and> rank (projr (assign_fred_grades sample_population) ! 99) = Some 1
   \<and> rank (projr (assign_fred_grades sample_population) ! 95) = Some 5"
proof -
  from a_plus_count_of_100 [OF sample_population_eligible sample_population_distinct_scores]
  obtain G where cnt: "a_plus_count sample_population = Inr 4"
    and G: "assign_fred_grades sample_population = Inr G"
    and each: "\<forall>i\<in>set (eligible_indices sample_population).
                (fred_score_grade (G ! i) = Some ''A+'')
                  = (card {j \<in> set (eligible_indices sample_population).
                            combined_score (sample_population ! i)
                              < combined_score (sample_population ! j)} < 4)
                \<and> rank (G ! i)
                  = Some (card {j \<in> set (eligible_indices sample_population).
                                 combined_score (sample_population ! i)
                                   < combined_score (sample_population ! j)} + 1)"
    by blast
  have p: "projr (assign_fred_grades sample_population) = G" using G by simp
  have m: "99 \<in> set (eligible_indices sample_population)"
    "96 \<in> set (eligible_indices sample_population)"
    "95 \<in> set (eligible_indices sample_population)"
    by (simp_all add: sample_population_indices)
  from each [rule_format, OF m(1)] sample_population_higher [of 99]
  have a: "fred_score_grade (G ! 99) = Some ''A+''" "rank (G ! 99) = Some 1" by simp_all
  from each [rule_format, OF m(2)] sample_population_higher [of 96]
  have b: "fred_score_grade (G ! 96) = Some ''A+''" by simp
  from each [rule_format, OF m(3)] sample_population_higher [of 95]
  have c: "fred_score_grade (G ! 95) \<noteq> Some ''A+''" "rank (G ! 95) = Some 5" by simp_all
  from a b c cnt sample_population_eligible sample_population_distinct_scores
  show ?thesis unfolding p by simp
qed

text \<open>
  Claim C1, as stated, fails: for the sample population of 100 eligible carriers with
  pairwise distinct scores the number of carriers graded A+ is not 3.
\<close>

theorem a_plus_count_not_3:
  "length (eligible_indices sample_population) = 100
   \<and> distinct (map combined_score sample_population)
   \<and> a_plus_count sample_population \<noteq> Inr 3"
  using a_plus_count_eq [of sample_population] sample_population_eligible
    sample_population_distinct four_of_hundred
  by simp

subsection \<open>The insurance normalizer\<close>

text \<open>No division of the rating loop has a zero divisor.\<close>

lemma rate_carrier_eq: "rate_carrier gv gc r = Inr (rated gv gc r)"
proof (cases "0 < annual_mileage r")
  case True
  then have m: "(of_int (annual_mileage r) :: rat) / 100000 \<noteq> 0" by simp
  have v: "0 < gv \<Longrightarrow> gv \<noteq> 0" and c: "0 < gc \<Longrightarrow> gc \<noteq> 0" by simp_all
  show ?thesis
    using True m v c
    by (simp add: rate_carrier_def rated_def rating_of_def py_div_def Let_def)
next
  case False
  then show ?thesis by (simp add: rate_carrier_def rated_def)
qed

lemma rate_loop_apply_at:
  "rate_loop gv gc as rs = Inr (apply_at (\<lambda>k. rated gv gc) i as rs)"
  by (induction as arbitrary: rs i) (simp_all add: rate_carrier_eq)

lemma global_rate_eq:
  "0 < tm \<Longrightarrow> global_rate c tm = Inr (of_nat c / of_int tm * 100000)"
  by (simp add: global_rate_def py_div_def)

lemma calculate_insurance_ratings_apply_at:
  "calculate_insurance_ratings rs =
     Inr (apply_at (\<lambda>k. rated (global_rate_of violation_count rs) (global_rate_of crash_count rs))
            0 (eligible_indices rs) rs)"
proof (cases "eligible_indices rs = []")
  case True
  then show ?thesis by (simp add: calculate_insurance_ratings_def)
next
  case False
  then show ?thesis
    by (simp add: calculate_insurance_ratings_def global_rate_of_def Let_def global_rate_eq
        rate_loop_apply_at [where i = 0])
qed

lemma calculate_insurance_ratings_nth:
  assumes "calculate_insurance_ratings rs = Inr rs'" and "i < length rs"
  shows "rs' ! i =
     (if has_sufficient_mileage (rs ! i)
      then rated (global_rate_of violation_count rs) (global_rate_of crash_count rs) (rs ! i)
      else rs ! i)"
proof -
  let ?f = "\<lambda>k::nat. rated (global_rate_of violation_count rs) (global_rate_of crash_count rs)"
  from assms(1) have rs': "rs' = apply_at ?f 0 (eligible_indices rs) rs"
    by (simp add: calculate_insurance_ratings_apply_at)
  show ?thesis
  proof (cases "has_sufficient_mileage (rs ! i)")
    case True
    with assms(2) have "i \<in> set (eligible_indices rs)" by (simp add: eligible_indices_props(3))
    from apply_at_mem [OF eligible_indices_props(1) eligible_indices_props(2) this, of ?f 0]
    show ?thesis using True rs' by auto
  next
    case False
    then have "i \<notin> set (eligible_indices rs)" by (simp add: eligible_indices_props(3))
    from apply_at_other [OF this, of ?f 0 rs] show ?thesis using False rs' by simp
  qed
qed

lemma rating_of_bounds: "1 \<le> rating_of gv gc r \<and> rating_of gv gc r \<le> 500"
  unfolding rating_of_def Let_def by (rule py_round_2_bounds) simp_all

lemma rating_of_cong:
  assumes "violation_count r = violation_count s" "crash_count r = crash_count s"
    "annual_mileage r = annual_mileage s"
  shows "rating_of gv gc r = rating_of gv gc s"
  using assms by (simp add: rating_of_def)

text \<open>
  Claim C4. On results as \<open>process_each\<close> builds them (the eligibility flag says that the
  mileage is at least 100000, and no rating is set), the insurance normalizer returns
  without an error; two eligible carriers with the same violation count, crash count and
  mileage get the same rating; every eligible carrier gets a rating between 1 and 500;
  and a carrier with a mileage below 100000 keeps the empty rating.
\<close>

theorem normalizer_ratings:
  assumes wf: "\<forall>r\<in>set results. has_sufficient_mileage r = (100000 \<le> annual_mileage r)"
      and fresh: "\<forall>r\<in>set results. insurance_rating r = None"
  shows "\<exists>rated_results. calculate_insurance_ratings results = Inr rated_results
     \<and> length rated_results = length results
     \<and> (\<forall>i<length results. \<forall>j<length results.
          100000 \<le> annual_mileage (results ! i) \<and> 100000 \<le> annual_mileage (results ! j)
          \<and> violation_count (results ! i) = violation_count (results ! j)
          \<and> crash_count (results ! i) = crash_count (results ! j)
          \<and> annual_mileage (results ! i) = annual_mileage (results ! j)
          \<longrightarrow> insurance_rating (rated_results ! i) = insurance_rating (rated_results ! j))
     \<and> (\<forall>i<length results. 100000 \<le> annual_mileage (results ! i) \<longrightarrow>
          (\<exists>x. insurance_rating (rated_results ! i) = Some x \<and> 1 \<le> x \<and> x \<le> 500))
     \<and> (\<forall>i<length results. annual_mileage (results ! i) < 100000 \<longrightarrow>
          insurance_rating (rated_results ! i) = None)"
proof -
  let ?gv = "global_rate_of violation_count results"
  let ?gc = "global_rate_of crash_count results"
  let ?rs' = "apply_at (\<lambda>k::nat. rated ?gv ?gc) 0 (eligible_indices results) results"
  have eq: "calculate_insurance_ratings results = Inr ?rs'"
    by (rule calculate_insurance_ratings_apply_at)
  have len: "length ?rs' = length results" by simp
  have el: "insurance_rating (?rs' ! i) = Some (rating_of ?gv ?gc (results ! i))"
    if "i < length results" "100000 \<le> annual_mileage (results ! i)" for i
  proof -
    from that wf have "has_sufficient_mileage (results ! i)" by simp
    with calculate_insurance_ratings_nth [OF eq that(1)] that(2) show ?thesis
      by (simp add: rated_def)
  qed
  have nel: "insurance_rating (?rs' ! i) = None"
    if "i < length results" "annual_mileage (results ! i) < 100000" for i
  proof -
    from that wf have "\<not> has_sufficient_mileage (results ! i)" by simp
    with calculate_insurance_ratings_nth [OF eq that(1)] fresh that(1) show ?thesis by simp
  qed
  have same: "insurance_rating (?rs' ! i) = insurance_rating (?rs' ! j)"
    if "i < length results" "j < length results"
      "100000 \<le> annual_mileage (results ! i)" "100000 \<le> annual_mileage (results ! j)"
      "violation_count (results ! i) = violation_count (results ! j)"
      "crash_count (results ! i) = crash_count (results ! j)"
      "annual_mileage (results ! i) = annual_mileage (results ! j)" for i j
    using el [OF that(1) that(3)] el [OF that(2) that(4)] rating_of_cong [OF that(5) that(6) that(7)]
    by simp
  have bounds: "\<exists>x. insurance_rating (?rs' ! i) = Some x \<and> 1 \<le> x \<and> x \<le> 500"
    if "i < length results" "100000 \<le> annual_mileage (results ! i)" for i
    using el [OF that] rating_of_bounds by simp
  show ?thesis
    apply (rule exI [of _ ?rs'])
    apply (intro conjI allI impI)
        apply (rule eq)
       apply (rule len)
      apply (rule same; simp)
     apply (rule bounds; simp)
    apply (rule nel; simp)
    done
qed

lemma sample_fleet_flags:
  "\<forall>r\<in>set sample_fleet. has_sufficient_mileage r = (100000 \<le> annual_mileage r)"
  by (simp add: sample_fleet_def sample_result_def)

lemma sample_fleet_fresh: "\<forall>r\<in>set sample_fleet. insurance_rating r = None"
  by (simp add: sample_fleet_def sample_result_def)

text \<open>
  The sample fleet: the carriers at positions 0 and 2 have the same profile, the carrier
  at position 1 is not eligible.
\<close>

theorem normalizer_ratings_witness:
  "map annual_mileage sample_fleet = [200000, 50000, 200000, 400000]
   \<and> map violation_count sample_fleet = [2, 3, 2, 0]
   \<and> map crash_count sample_fleet = [1, 0, 1, 1]
   \<and> map insurance_rating sample_fleet = [None, None, None, None]
   \<and> calculate_insurance_ratings sample_fleet
       = Inr (projr (calculate_insurance_ratings sample_fleet))
   \<and> insurance_rating (projr (calculate_insurance_ratings sample_fleet) ! 0)
       = insurance_rating (projr (calculate_insurance_ratings sample_fleet) ! 2)
   \<and> insurance_rating (projr (calculate_insurance_ratings sample_fleet) ! 0) \<noteq> None
   \<and> 1 \<le> the (insurance_rating (projr (calculate_insurance_ratings sample_fleet) ! 0))
   \<and> the (insurance_rating (projr (calculate_insurance_ratings sample_fleet) ! 0)) \<le> 500
   \<and> insurance_rating (projr (calculate_insurance_ratings sample_fleet) ! 1) = None"
proof -
  from normalizer_ratings [OF sample_fleet_flags sample_fleet_fresh] obtain R where
    r: "calculate_insurance_ratings sample_fleet = Inr R"
    and same: "\<forall>i<length sample_fleet. \<forall>j<length sample_fleet.
          100000 \<le> annual_mileage (sample_fleet ! i) \<and> 100000 \<le> annual_mileage (sample_fleet ! j)
          \<and> violation_count (sample_fleet ! i) = violation_count (sample_fleet ! j)
          \<and> crash_count (sample_fleet ! i) = crash_count (sample_fleet ! j)
          \<and> annual_mileage (sample_fleet ! i) = annual_mileage (sample_fleet ! j)
          \<longrightarrow> insurance_rating (R ! i) = insurance_rating (R ! j)"
    and bounds: "\<forall>i<length sample_fleet. 100000 \<le> annual_mileage (sample_fleet ! i) \<longrightarrow>
          (\<exists>x. insurance_rating (R ! i) = Some x \<and> 1 \<le> x \<and> x \<le> 500)"
    and none: "\<forall>i<length sample_fleet. annual_mileage (sample_fleet ! i) < 100000 \<longrightarrow>
          insurance_rating (R ! i) = None"
    by blast
  have p: "projr (calculate_insurance_ratings sample_fleet) = R" using r by simp
  have a: "insurance_rating (R ! 0) = insurance_rating (R ! 2)"
    using same [rule_format, of 0 2] by (simp add: sample_fleet_def sample_result_def)
  have b: "\<exists>x. insurance_rating (R ! 0) = Some x \<and> 1 \<le> x \<and> x \<le> 500"
    using bounds [rule_format, of 0] by (simp add: sample_fleet_def sample_result_def)
  have c: "insurance_rating (R ! 1) = None"
    using none [rule_format, of 1] by (simp add: sample_fleet_def sample_result_def)
  have m: "map annual_mileage sample_fleet = [200000, 50000, 200000, 400000]"
    "map violation_count sample_fleet = [2, 3, 2, 0]"
    "map crash_count sample_fleet = [1, 0, 1, 1]"
    "map insurance_rating sample_fleet = [None, None, None, None]"
    by (simp_all add: sample_fleet_def sample_result_def)
  from a b c m r show ?thesis unfolding p by auto
qed

text \<open>The ratings of the sample fleet.\<close>

lemma sample_fleet_ratings:
  "map_sum id (map insurance_rating) (calculate_insurance_ratings sample_fleet)
     = Inr [Some 160, None, Some 160, Some 40]"
  by code_simp

section \<open>The eligibility classifier: results\<close>

text \<open>
  The cascade in the order of the source: when the classifier returns an outcome, an
  inactive status wins over every passenger signal, a passenger signal over missing
  truck power, and missing truck power over the authority rules.
\<close>

lemma should_exclude_inactive:
  "inactive_status c \<Longrightarrow> should_exclude_carrier rt c = Inr (True, ''inactive_status'')"
  by (simp add: should_exclude_carrier_def)

lemma should_exclude_passenger_class:
  "\<not> inactive_status c \<Longrightarrow> passenger_class c \<Longrightarrow>
   should_exclude_carrier rt c = Inr (True, ''passenger_operation'')"
  by (simp add: should_exclude_carrier_def)

lemma should_exclude_passenger_equipment:
  "\<not> inactive_status c \<Longrightarrow> sum_fields rt c passenger_equipment_fields = Inr p \<Longrightarrow>
   0 < p \<or> private_passenger c \<Longrightarrow>
   should_exclude_carrier rt c = Inr (True, ''passenger_operation'')"
  by (auto simp add: should_exclude_carrier_def)

lemma should_exclude_no_truck_power:
  "\<not> inactive_status c \<Longrightarrow> \<not> passenger_class c \<Longrightarrow>
   sum_fields rt c passenger_equipment_fields = Inr p \<Longrightarrow> p \<le> 0 \<Longrightarrow> \<not> private_passenger c \<Longrightarrow>
   sum_fields rt c truck_power_fields = Inr t \<Longrightarrow> t \<le> 0 \<Longrightarrow>
   should_exclude_carrier rt c = Inr (True, ''no_truck_power'')"
  by (simp add: should_exclude_carrier_def)

lemma should_exclude_authority:
  "\<not> inactive_status c \<Longrightarrow> \<not> passenger_class c \<Longrightarrow>
   sum_fields rt c passenger_equipment_fields = Inr p \<Longrightarrow> p \<le> 0 \<Longrightarrow> \<not> private_passenger c \<Longrightarrow>
   sum_fields rt c truck_power_fields = Inr t \<Longrightarrow> 0 < t \<Longrightarrow>
   should_exclude_carrier rt c = Inr (authority_outcome c)"
  by (simp add: should_exclude_carrier_def)

lemma authority_outcome_cases:
  "authority_outcome c \<in>
     {(False, ''''), (True, ''private_not_for_hire''), (True, ''no_for_hire_authority'')}"
  by (simp add: authority_outcome_def Let_def)

text \<open>The only exception that leaves the classifier is the \<^verbatim>\<open>OverflowError\<close>.\<close>

lemma int_float_or_error: "int_float_or rt s d = Inl e \<Longrightarrow> e = OverflowError"
  by (auto simp add: int_float_or_def split: option.splits pyfloat.splits)

lemma safe_int_error: "safe_int rt v d = Inl e \<Longrightarrow> e = OverflowError"
  by (auto simp add: safe_int_def split: option.splits if_splits dest: int_float_or_error)

lemma sum_fields_error: "sum_fields rt c fs = Inl e \<Longrightarrow> e = OverflowError"
proof (induction fs arbitrary: e)
  case Nil
  then show ?case by simp
next
  case (Cons f fs)
  show ?case
  proof (cases "safe_int rt (dict_get c f (Some '''')) 0")
    case (Inl e')
    with Cons.prems safe_int_error [OF Inl] show ?thesis by simp
  next
    case (Inr x)
    show ?thesis
    proof (cases "sum_fields rt c fs")
      case (Inl e')
      with Cons.prems Inr Cons.IH [OF Inl] show ?thesis by simp
    next
      case r: (Inr s)
      with Cons.prems Inr show ?thesis by simp
    qed
  qed
qed

lemma should_exclude_error:
  "should_exclude_carrier rt c = Inl e \<Longrightarrow> e = OverflowError"
  by (auto simp add: should_exclude_carrier_def ebind_def
      split: if_splits sum.splits dest: sum_fields_error)

text \<open>
  Claim C2. The claim promises an outcome for every carrier record, and the outcome
  \<^verbatim>\<open>passenger_operation\<close> for a carrier that is not inactive and has a passenger signal.
  A carrier with \<^verbatim>\<open>PRIVATE_PASSENGER_BUSINESS = 'Y'\<close> and \<^verbatim>\<open>OWNCOACH = 'inf'\<close> is not
  inactive and has the private-passenger signal, yet the classifier returns no outcome:
  summing the passenger equipment, \<^verbatim>\<open>safe_int\<close> lets the \<^verbatim>\<open>OverflowError\<close> of
  \<^verbatim>\<open>int(float('inf'))\<close> through.
\<close>

theorem should_exclude_carrier_overflow:
  "\<not> inactive_status [''PRIVATE_PASSENGER_BUSINESS'' \<mapsto> Some ''Y'', ''OWNCOACH'' \<mapsto> Some ''inf'']
   \<and> private_passenger [''PRIVATE_PASSENGER_BUSINESS'' \<mapsto> Some ''Y'', ''OWNCOACH'' \<mapsto> Some ''inf'']
   \<and> should_exclude_carrier (sample_runtime 0)
         [''PRIVATE_PASSENGER_BUSINESS'' \<mapsto> Some ''Y'', ''OWNCOACH'' \<mapsto> Some ''inf'']
       = Inl OverflowError"
  by code_simp

end
